theory Spec2Isabelle
  imports Complex_Main
begin

section \<open>Values of the formulary\<close>

text \<open>
  The formulas of \<^verbatim>\<open>plasmapy/formulary/parameters.py\<close> compute on NumPy
  double-precision numbers. A number is modelled with the special values that the source
  tests for (\<^verbatim>\<open>np.isfinite\<close>) and that arise from a division by zero;
  finite values are exact reals: rounding, overflow, underflow and the sign of zero are
  not modelled.
\<close>

datatype float64 = Finite real | PInf | NInf | NaN

fun isfinite :: "float64 \<Rightarrow> bool" where
  "isfinite (Finite a) = True"
| "isfinite PInf = False"
| "isfinite NInf = False"
| "isfinite NaN = False"

fun isnan :: "float64 \<Rightarrow> bool" where
  "isnan NaN = True"
| "isnan (Finite a) = False"
| "isnan PInf = False"
| "isnan NInf = False"

fun is_negative :: "float64 \<Rightarrow> bool" where
  "is_negative (Finite a) = (a < 0)"
| "is_negative NInf = True"
| "is_negative PInf = False"
| "is_negative NaN = False"

fun f_abs :: "float64 \<Rightarrow> float64" where
  "f_abs (Finite a) = Finite \<bar>a\<bar>"
| "f_abs PInf = PInf"
| "f_abs NInf = PInf"
| "f_abs NaN = NaN"

fun f_neg :: "float64 \<Rightarrow> float64" where
  "f_neg (Finite a) = Finite (- a)"
| "f_neg PInf = NInf"
| "f_neg NInf = PInf"
| "f_neg NaN = NaN"

fun f_add :: "float64 \<Rightarrow> float64 \<Rightarrow> float64" where
  "f_add (Finite a) (Finite b) = Finite (a + b)"
| "f_add (Finite a) PInf = PInf"
| "f_add (Finite a) NInf = NInf"
| "f_add (Finite a) NaN = NaN"
| "f_add PInf (Finite b) = PInf"
| "f_add PInf PInf = PInf"
| "f_add PInf NInf = NaN"
| "f_add PInf NaN = NaN"
| "f_add NInf (Finite b) = NInf"
| "f_add NInf PInf = NaN"
| "f_add NInf NInf = NInf"
| "f_add NInf NaN = NaN"
| "f_add NaN y = NaN"

text \<open>An infinity scaled by a finite factor: zero gives NaN, a sign flips it.\<close>

definition scale_inf :: "real \<Rightarrow> float64 \<Rightarrow> float64" where
  "scale_inf a x = (if a = 0 then NaN else if 0 < a then x else f_neg x)"

fun f_mul :: "float64 \<Rightarrow> float64 \<Rightarrow> float64" where
  "f_mul (Finite a) (Finite b) = Finite (a * b)"
| "f_mul (Finite a) PInf = scale_inf a PInf"
| "f_mul (Finite a) NInf = scale_inf a NInf"
| "f_mul (Finite a) NaN = NaN"
| "f_mul PInf (Finite b) = scale_inf b PInf"
| "f_mul PInf PInf = PInf"
| "f_mul PInf NInf = NInf"
| "f_mul PInf NaN = NaN"
| "f_mul NInf (Finite b) = scale_inf b NInf"
| "f_mul NInf PInf = NInf"
| "f_mul NInf NInf = PInf"
| "f_mul NInf NaN = NaN"
| "f_mul NaN y = NaN"

text \<open>
  Division of NumPy doubles does not raise: a finite nonzero number over zero is an
  infinity, zero over zero is NaN.
\<close>

fun f_div :: "float64 \<Rightarrow> float64 \<Rightarrow> float64" where
  "f_div (Finite a) (Finite b) =
     (if b = 0 then (if a = 0 then NaN else if 0 < a then PInf else NInf)
      else Finite (a / b))"
| "f_div (Finite a) PInf = Finite 0"
| "f_div (Finite a) NInf = Finite 0"
| "f_div (Finite a) NaN = NaN"
| "f_div PInf (Finite b) = (if 0 \<le> b then PInf else NInf)"
| "f_div NInf (Finite b) = (if 0 \<le> b then NInf else PInf)"
| "f_div PInf PInf = NaN"
| "f_div PInf NInf = NaN"
| "f_div PInf NaN = NaN"
| "f_div NInf PInf = NaN"
| "f_div NInf NInf = NaN"
| "f_div NInf NaN = NaN"
| "f_div NaN y = NaN"

fun f_sqrt :: "float64 \<Rightarrow> float64" where
  "f_sqrt (Finite a) = (if a < 0 then NaN else Finite (sqrt a))"
| "f_sqrt PInf = PInf"
| "f_sqrt NInf = NaN"
| "f_sqrt NaN = NaN"

text \<open>Comparisons: every comparison with NaN is false.\<close>

fun f_le :: "float64 \<Rightarrow> float64 \<Rightarrow> bool" where
  "f_le (Finite a) (Finite b) = (a \<le> b)"
| "f_le (Finite a) PInf = True"
| "f_le (Finite a) NInf = False"
| "f_le NInf (Finite b) = True"
| "f_le NInf NInf = True"
| "f_le NInf PInf = True"
| "f_le PInf PInf = True"
| "f_le PInf (Finite b) = False"
| "f_le PInf NInf = False"
| "f_le NaN y = False"
| "f_le x NaN = False"

fun f_lt :: "float64 \<Rightarrow> float64 \<Rightarrow> bool" where
  "f_lt (Finite a) (Finite b) = (a < b)"
| "f_lt (Finite a) PInf = True"
| "f_lt (Finite a) NInf = False"
| "f_lt NInf (Finite b) = True"
| "f_lt NInf NInf = False"
| "f_lt NInf PInf = True"
| "f_lt PInf y = False"
| "f_lt NaN y = False"
| "f_lt x NaN = False"

text \<open>The powers the source writes: \<^verbatim>\<open>x ** 2\<close>, \<^verbatim>\<open>x ** -1\<close>,
  \<^verbatim>\<open>x ** -2\<close> and \<^verbatim>\<open>x ** -0.5\<close>.\<close>

definition f_sq :: "float64 \<Rightarrow> float64" where
  "f_sq x = f_mul x x"

definition f_pow_m1 :: "float64 \<Rightarrow> float64" where
  "f_pow_m1 x = f_div (Finite 1) x"

definition f_pow_m2 :: "float64 \<Rightarrow> float64" where
  "f_pow_m2 x = f_div (Finite 1) (f_mul x x)"

definition f_pow_mhalf :: "float64 \<Rightarrow> float64" where
  "f_pow_mhalf x = f_div (Finite 1) (f_sqrt x)"

text \<open>
  A quantity's value is a scalar or a one-dimensional array
  (\<^verbatim>\<open>np.isscalar(Vperp.value)\<close> tells them apart).
\<close>

datatype 'a nd = Scalar 'a | Array "'a list"

fun elementwise :: "('a \<Rightarrow> 'b) \<Rightarrow> 'a nd \<Rightarrow> 'b nd" where
  "elementwise f (Scalar x) = Scalar (f x)"
| "elementwise f (Array xs) = Array (map f xs)"

fun elems :: "'a nd \<Rightarrow> 'a list" where
  "elems (Scalar x) = [x]"
| "elems (Array xs) = xs"

text \<open>
  Python values that the source does not route through the quantity validator
  (\<^verbatim>\<open>z_mean\<close>, \<^verbatim>\<open>Z\<close>, \<^verbatim>\<open>gamma_e\<close>, \<^verbatim>\<open>gamma_i\<close>):
  an int, a float, or an object that is not a number, whose arithmetic raises TypeError.
\<close>

datatype pyval = PyInt int | PyFloat float64 | PyObject

section \<open>Exceptions, warnings and results\<close>

datatype exn =
    ValueError string
  | TypeError string
  | IndexError
  | PhysicsError string
  | RelativityError
  | NegativeValueError
  | InvalidValueError
  | MissingParameterError
  | InvalidParticleError

datatype warning = PhysicsWarning string | RelativityWarning

text \<open>
  A call emits warnings and then either raises or returns: the warnings emitted before
  an exception stay emitted.
\<close>

type_synonym 'a result = "warning list \<times> (exn + 'a)"

definition ok :: "'a \<Rightarrow> 'a result" where
  "ok x = ([], Inr x)"

definition raise :: "exn \<Rightarrow> 'a result" where
  "raise ex = ([], Inl ex)"

definition warn :: "warning \<Rightarrow> unit result" where
  "warn w = ([w], Inr ())"

definition lift :: "exn + 'a \<Rightarrow> 'a result" where
  "lift r = ([], r)"

definition bind_r :: "'a result \<Rightarrow> ('a \<Rightarrow> 'b result) \<Rightarrow> 'b result" where
  "bind_r m f =
     (case m of
        (ws, Inl ex) \<Rightarrow> (ws, Inl ex)
      | (ws, Inr x) \<Rightarrow> (case f x of (ws', r) \<Rightarrow> (ws @ ws', r)))"

definition bind_e :: "exn + 'a \<Rightarrow> ('a \<Rightarrow> exn + 'b) \<Rightarrow> exn + 'b" where
  "bind_e m f = (case m of Inl ex \<Rightarrow> Inl ex | Inr x \<Rightarrow> f x)"

fun as_float :: "pyval \<Rightarrow> exn + float64" where
  "as_float (PyInt i) = Inr (Finite (of_int i))"
| "as_float (PyFloat x) = Inr x"
| "as_float PyObject = Inl (TypeError ''unsupported operand type'')"

fun py_abs :: "pyval \<Rightarrow> exn + pyval" where
  "py_abs (PyInt i) = Inr (PyInt \<bar>i\<bar>)"
| "py_abs (PyFloat x) = Inr (PyFloat (f_abs x))"
| "py_abs PyObject = Inl (TypeError ''bad operand type for abs()'')"

section \<open>External collaborators\<close>

text \<open>
  The particle database (\<^verbatim>\<open>plasmapy.atomic\<close>), the physical constants
  (\<^verbatim>\<open>astropy.constants.si\<close>) and the default constraints of the quantity validator
  are not part of \<^verbatim>\<open>parameters.py\<close>: they are parameters of every formula.
\<close>

record vspec =
  can_be_negative :: bool
  can_be_nan :: bool
  none_shall_pass :: bool

record env =
  particle_mass :: "string \<Rightarrow> exn + float64"
  integer_charge :: "string \<Rightarrow> exn + int"
  Particle :: "string \<Rightarrow> exn + string"
  vq_default :: vspec
  m_e :: real
  c_si :: real
  mu0 :: real
  k_B :: real
  e_si :: real
  eps0 :: real

text \<open>
  Modelled from the spec: the decorator \<^verbatim>\<open>validate_quantities\<close> of
  \<^verbatim>\<open>plasmapy.utils.decorators\<close> is missing from the sources. Section 4.1 of the
  specification: a value with a negative element fails with NegativeValueError when
  negatives are not allowed, a value with a NaN element fails with InvalidValueError
  when NaN is not allowed, an absent parameter fails with MissingParameterError unless
  it may remain unset. Inputs carry their unit in SI, so no unit is assumed or converted.
\<close>

definition validate_array :: "vspec \<Rightarrow> float64 nd \<Rightarrow> exn + float64 nd" where
  "validate_array s x =
     (if \<not> can_be_negative s \<and> list_ex is_negative (elems x) then Inl NegativeValueError
      else if \<not> can_be_nan s \<and> list_ex isnan (elems x) then Inl InvalidValueError
      else Inr x)"

definition validate_quantity :: "vspec \<Rightarrow> float64 \<Rightarrow> exn + float64" where
  "validate_quantity s x =
     (if \<not> can_be_negative s \<and> is_negative x then Inl NegativeValueError
      else if \<not> can_be_nan s \<and> isnan x then Inl InvalidValueError
      else Inr x)"

definition validate_optional :: "vspec \<Rightarrow> float64 option \<Rightarrow> exn + float64 option" where
  "validate_optional s x =
     (case x of
        None \<Rightarrow> (if none_shall_pass s then Inr None else Inl MissingParameterError)
      | Some v \<Rightarrow> bind_e (validate_quantity s v) (\<lambda>v'. Inr (Some v')))"

text \<open>
  Modelled from the spec: the decorator \<^verbatim>\<open>angular_freq_to_hz\<close> is missing from the
  sources. Section 4.4: when the caller requests the ordinary frequency the angular
  frequency is divided by \<open>2\<pi>\<close>, otherwise it passes through unchanged.
\<close>

definition angular_freq_to_hz :: "bool \<Rightarrow> float64 result \<Rightarrow> float64 result" where
  "angular_freq_to_hz to_hz r =
     bind_r r (\<lambda>w. ok (if to_hz then f_div w (Finite (2 * pi)) else w))"

section \<open>Charge merge\<close>

text \<open>
  \<^verbatim>\<open>_grab_charge(ion, z_mean=None)\<close>: the integer charge of the ion when
  \<^verbatim>\<open>z_mean is None\<close>, else \<^verbatim>\<open>z_mean\<close> itself.
\<close>

definition grab_charge :: "env \<Rightarrow> string \<Rightarrow> pyval option \<Rightarrow> exn + pyval" where
  "grab_charge E ion z_mean =
     (case z_mean of
        None \<Rightarrow> bind_e (integer_charge E ion) (\<lambda>Z. Inr (PyInt Z))
      | Some z \<Rightarrow> Inr z)"

section \<open>Relativistic guard\<close>

fun f_max :: "float64 \<Rightarrow> float64 \<Rightarrow> float64" where
  "f_max a b = (if isnan a \<or> isnan b then NaN else if f_le a b then b else a)"

definition max_magnitude :: "float64 nd \<Rightarrow> float64 option" where
  "max_magnitude v =
     (case map f_abs (elems v) of [] \<Rightarrow> None | x # xs \<Rightarrow> Some (fold f_max xs x))"

text \<open>
  Modelled from the spec: the decorator \<^verbatim>\<open>check_relativistic\<close> of
  \<^verbatim>\<open>plasmapy.utils.decorators\<close> is missing from the sources. Section 4.3: after
  the wrapped formula has computed \<open>v\<close>, a magnitude of at least \<open>c\<close> fails with
  RelativityError, a magnitude of at least \<open>0.05 c\<close> emits a RelativityWarning and
  returns \<open>v\<close> unchanged, anything else returns \<open>v\<close> unchanged; an array is tested
  by its maximum magnitude. An array without elements has no maximum: NumPy's
  \<^verbatim>\<open>max\<close> raises ValueError on it, and so does the guard.
\<close>

definition check_relativistic :: "env \<Rightarrow> float64 nd result \<Rightarrow> float64 nd result" where
  "check_relativistic E r =
     bind_r r (\<lambda>v.
       case max_magnitude v of
         None \<Rightarrow>
           raise (ValueError ''zero-size array to reduction operation maximum which has no identity'')
       | Some b \<Rightarrow>
           if f_le (Finite (c_si E)) b then raise RelativityError
           else if f_le (Finite (0.05 * c_si E)) b
             then bind_r (warn RelativityWarning) (\<lambda>_. ok v)
           else ok v)"

section \<open>Mass density and Alfven speed\<close>

text \<open>
  \<^verbatim>\<open>density: [u.m ** -3, u.kg / (u.m ** 3)]\<close>: the validator admits a number
  density or a mass density, and \<^verbatim>\<open>rho.unit.is_equivalent(u.kg / u.m ** 3)\<close>
  tells them apart.
\<close>

datatype density = NumberDensity float64 | MassDensity float64

definition nonneg :: "vspec \<Rightarrow> vspec" where
  "nonneg s = s\<lparr>can_be_negative := False\<rparr>"

definition validate_density :: "vspec \<Rightarrow> density \<Rightarrow> exn + density" where
  "validate_density s d =
     (case d of
        NumberDensity n \<Rightarrow> bind_e (validate_quantity s n) (\<lambda>n'. Inr (NumberDensity n'))
      | MassDensity rho \<Rightarrow> bind_e (validate_quantity s rho) (\<lambda>rho'. Inr (MassDensity rho')))"

definition repr_particle :: "string option \<Rightarrow> string" where
  "repr_particle particle = (case particle of None \<Rightarrow> ''None'' | Some p \<Rightarrow> p)"

definition mass_density_body ::
  "env \<Rightarrow> density \<Rightarrow> string option \<Rightarrow> pyval option \<Rightarrow> float64 result" where
  "mass_density_body E density particle z_mean =
     (case density of
        MassDensity rho \<Rightarrow> ok rho
      | NumberDensity n \<Rightarrow>
          (case particle of
             Some p \<Rightarrow>
               if p \<noteq> [] then
                 bind_r (lift (particle_mass E p)) (\<lambda>m_i.
                 bind_r (lift (grab_charge E p z_mean)) (\<lambda>Z.
                 bind_r (lift (as_float Z)) (\<lambda>z.
                   ok (f_add (f_mul n m_i) (f_mul (f_mul z n) (Finite (m_e E)))))))
               else raise (ValueError (''If passing a number density, you must pass a particle (not ''
                      @ repr_particle particle @ '') to calculate the mass density!''))
           | None \<Rightarrow> raise (ValueError (''If passing a number density, you must pass a particle (not ''
                      @ repr_particle particle @ '') to calculate the mass density!''))))"

definition mass_density ::
  "env \<Rightarrow> density \<Rightarrow> string option \<Rightarrow> pyval option \<Rightarrow> float64 result" where
  "mass_density E density particle z_mean =
     bind_r (lift (validate_density (nonneg (vq_default E)) density)) (\<lambda>d.
     bind_r (mass_density_body E d particle z_mean) (\<lambda>rho.
       lift (validate_quantity (nonneg (vq_default E)) rho)))"

definition Alfven_speed_body ::
  "env \<Rightarrow> float64 \<Rightarrow> density \<Rightarrow> string \<Rightarrow> pyval option \<Rightarrow> float64 nd result" where
  "Alfven_speed_body E B density ion z_mean =
     bind_r (mass_density E density (Some ion) z_mean) (\<lambda>rho.
       ok (Scalar (f_div (f_abs B) (f_sqrt (f_mul (Finite (mu0 E)) rho)))))"

definition Alfven_speed_validated ::
  "env \<Rightarrow> float64 \<Rightarrow> density \<Rightarrow> string \<Rightarrow> pyval option \<Rightarrow> float64 nd result" where
  "Alfven_speed_validated E B density ion z_mean =
     bind_r (lift (validate_quantity (vq_default E) B)) (\<lambda>B'.
     bind_r (lift (validate_density (nonneg (vq_default E)) density)) (\<lambda>d.
     bind_r (Alfven_speed_body E B' d ion z_mean) (\<lambda>V_A.
       lift (validate_array (vq_default E) V_A))))"

definition Alfven_speed ::
  "env \<Rightarrow> float64 \<Rightarrow> density \<Rightarrow> string \<Rightarrow> pyval option \<Rightarrow> float64 nd result" where
  "Alfven_speed E B density ion z_mean =
     check_relativistic E (Alfven_speed_validated E B density ion z_mean)"

section \<open>Debye length and ion sound speed\<close>

definition Debye_length_body :: "env \<Rightarrow> float64 \<Rightarrow> float64 \<Rightarrow> float64 result" where
  "Debye_length_body E T_e n_e =
     ok (f_sqrt (f_div (f_mul (f_mul (Finite (eps0 E)) (Finite (k_B E))) T_e)
                       (f_mul n_e (f_sq (Finite (e_si E))))))"

definition Debye_length :: "env \<Rightarrow> float64 \<Rightarrow> float64 \<Rightarrow> float64 result" where
  "Debye_length E T_e n_e =
     bind_r (lift (validate_quantity (nonneg (vq_default E)) T_e)) (\<lambda>T_e'.
     bind_r (lift (validate_quantity (nonneg (vq_default E)) n_e)) (\<lambda>n_e'.
     bind_r (Debye_length_body E T_e' n_e') (\<lambda>lambda_D.
       lift (validate_quantity (vq_default E) lambda_D))))"

text \<open>
  The check of an adiabatic index: \<^verbatim>\<open>isinstance(gamma, (numbers.Real,
  numbers.Integral))\<close>, then \<^verbatim>\<open>gamma < 1\<close>.
\<close>

definition check_gamma :: "pyval \<Rightarrow> string \<Rightarrow> unit result" where
  "check_gamma gamma particles =
     (case gamma of
        PyObject \<Rightarrow> raise (TypeError (''The adiabatic index gamma for '' @ particles
                      @ '' must be a float or int''))
      | PyInt i \<Rightarrow>
          if i < 1 then raise (PhysicsError (''The adiabatic index for '' @ particles
                      @ '' must be between one and infinity''))
          else ok ()
      | PyFloat x \<Rightarrow>
          if f_lt x (Finite 1) then raise (PhysicsError (''The adiabatic index for '' @ particles
                      @ '' must be between one and infinity''))
          else ok ())"

text \<open>The dispersion term \<^verbatim>\<open>klD2\<close> (source lines 378 to 386).\<close>

definition dispersion ::
  "env \<Rightarrow> float64 \<Rightarrow> float64 option \<Rightarrow> float64 option \<Rightarrow> float64 result" where
  "dispersion E T_e n_e k =
     (if (n_e = None) \<noteq> (k = None) then
        bind_r (warn (PhysicsWarning ''The non-dispersive limit has been assumed for this calculation. To prevent this, values must be specified for both n_e and k.''))
          (\<lambda>_. ok (Finite 0))
      else
        (case (n_e, k) of
           (Some n, Some kk) \<Rightarrow>
             bind_r (Debye_length E T_e n) (\<lambda>lambda_D. ok (f_sq (f_mul kk lambda_D)))
         | _ \<Rightarrow> ok (Finite 0)))"

text \<open>The expression inside the \<^verbatim>\<open>try\<close> block (source lines 389 and 390).\<close>

definition V_S_expr ::
  "env \<Rightarrow> pyval \<Rightarrow> pyval \<Rightarrow> float64 \<Rightarrow> pyval \<Rightarrow> float64 \<Rightarrow> float64 \<Rightarrow> float64 \<Rightarrow> exn + float64" where
  "V_S_expr E gamma_e Z T_e gamma_i T_i m_i klD2 =
     bind_e (as_float gamma_e) (\<lambda>ge.
     bind_e (as_float Z) (\<lambda>z.
     bind_e (as_float gamma_i) (\<lambda>gi.
       Inr (f_sqrt (f_div
              (f_add (f_mul (f_mul (f_mul ge z) (Finite (k_B E))) T_e)
                     (f_mul (f_mul gi (Finite (k_B E))) T_i))
              (f_mul m_i (f_add (Finite 1) klD2)))))))"

definition ion_sound_speed_body ::
  "env \<Rightarrow> float64 \<Rightarrow> float64 \<Rightarrow> float64 option \<Rightarrow> float64 option \<Rightarrow> pyval \<Rightarrow> pyval \<Rightarrow> string
     \<Rightarrow> pyval option \<Rightarrow> float64 nd result" where
  "ion_sound_speed_body E T_e T_i n_e k gamma_e gamma_i ion z_mean =
     bind_r (lift (particle_mass E ion)) (\<lambda>m_i.
     bind_r (lift (grab_charge E ion z_mean)) (\<lambda>Z.
     bind_r (check_gamma gamma_e ''electrons'') (\<lambda>_.
     bind_r (check_gamma gamma_i ''ions'') (\<lambda>_.
     bind_r (dispersion E T_e n_e k) (\<lambda>klD2.
       case V_S_expr E gamma_e Z T_e gamma_i T_i m_i klD2 of
         Inl _ \<Rightarrow> raise (ValueError ''Unable to find ion sound speed.'')
       | Inr V_S \<Rightarrow> ok (Scalar V_S))))))"

definition optional :: "vspec \<Rightarrow> vspec" where
  "optional s = s\<lparr>none_shall_pass := True\<rparr>"

definition ion_sound_speed_validated ::
  "env \<Rightarrow> float64 \<Rightarrow> float64 \<Rightarrow> float64 option \<Rightarrow> float64 option \<Rightarrow> pyval \<Rightarrow> pyval \<Rightarrow> string
     \<Rightarrow> pyval option \<Rightarrow> float64 nd result" where
  "ion_sound_speed_validated E T_e T_i n_e k gamma_e gamma_i ion z_mean =
     bind_r (lift (validate_quantity (nonneg (vq_default E)) T_e)) (\<lambda>T_e'.
     bind_r (lift (validate_quantity (nonneg (vq_default E)) T_i)) (\<lambda>T_i'.
     bind_r (lift (validate_optional (optional (nonneg (vq_default E))) n_e)) (\<lambda>n_e'.
     bind_r (lift (validate_optional (optional (nonneg (vq_default E))) k)) (\<lambda>k'.
     bind_r (ion_sound_speed_body E T_e' T_i' n_e' k' gamma_e gamma_i ion z_mean) (\<lambda>V_S.
       lift (validate_array (vq_default E) V_S))))))"

definition ion_sound_speed ::
  "env \<Rightarrow> float64 \<Rightarrow> float64 \<Rightarrow> float64 option \<Rightarrow> float64 option \<Rightarrow> pyval \<Rightarrow> pyval \<Rightarrow> string
     \<Rightarrow> pyval option \<Rightarrow> float64 nd result" where
  "ion_sound_speed E T_e T_i n_e k gamma_e gamma_i ion z_mean =
     check_relativistic E (ion_sound_speed_validated E T_e T_i n_e k gamma_e gamma_i ion z_mean)"

section \<open>Thermal speeds\<close>

text \<open>
  \<^verbatim>\<open>thermal_speed\<close>, source lines 488 to 500: the mass is chosen first
  (\<^verbatim>\<open>m = mass if np.isfinite(mass) else atomic.particle_mass(particle)\<close>), then
  the method selects the expression. The message of the last branch is not an f-string
  in the source, so the braces are part of the text.
\<close>

definition thermal_speed_formula ::
  "env \<Rightarrow> float64 nd \<Rightarrow> string \<Rightarrow> float64 \<Rightarrow> float64 nd result" where
  "thermal_speed_formula E T method m =
     (if method = ''most_probable'' then
        ok (elementwise (\<lambda>t. f_sqrt (f_div (f_mul (Finite (2 * k_B E)) t) m)) T)
      else if method = ''rms'' then
        ok (elementwise (\<lambda>t. f_sqrt (f_div (f_mul (Finite (3 * k_B E)) t) m)) T)
      else if method = ''mean_magnitude'' then
        ok (elementwise (\<lambda>t. f_sqrt (f_div (f_mul (Finite (8 * k_B E)) t) (f_mul m (Finite pi)))) T)
      else raise (ValueError ''Method {method} not supported in thermal_speed''))"

definition thermal_speed_body ::
  "env \<Rightarrow> float64 nd \<Rightarrow> string \<Rightarrow> string \<Rightarrow> float64 \<Rightarrow> float64 nd result" where
  "thermal_speed_body E T particle method mass =
     bind_r (lift (if isfinite mass then Inr mass else particle_mass E particle))
       (thermal_speed_formula E T method)"

text \<open>
  The constraints the decorator line declares for \<^verbatim>\<open>mass\<close>:
  \<^verbatim>\<open>{'can_be_negative': False, 'can_be_nan': True}\<close>.
\<close>

definition mass_spec :: "env \<Rightarrow> vspec" where
  "mass_spec E = (vq_default E)\<lparr>can_be_negative := False, can_be_nan := True\<rparr>"

text \<open>
  The decorators, innermost first: \<^verbatim>\<open>atomic.particle_input\<close> turns the descriptor
  into a particle, \<^verbatim>\<open>validate_quantities\<close> checks \<^verbatim>\<open>T\<close>, \<^verbatim>\<open>mass\<close> and the
  returned speed, \<^verbatim>\<open>check_relativistic\<close> guards the result.
\<close>

definition thermal_speed_validated ::
  "env \<Rightarrow> float64 nd \<Rightarrow> string \<Rightarrow> string \<Rightarrow> float64 \<Rightarrow> float64 nd result" where
  "thermal_speed_validated E T particle method mass =
     bind_r (lift (validate_array (nonneg (vq_default E)) T)) (\<lambda>T'.
     bind_r (lift (validate_quantity (mass_spec E) mass)) (\<lambda>mass'.
     bind_r (lift (Particle E particle)) (\<lambda>particle'.
     bind_r (thermal_speed_body E T' particle' method mass') (\<lambda>V.
       lift (validate_array (vq_default E) V)))))"

definition thermal_speed ::
  "env \<Rightarrow> float64 nd \<Rightarrow> string \<Rightarrow> string \<Rightarrow> float64 \<Rightarrow> float64 nd result" where
  "thermal_speed E T particle method mass =
     check_relativistic E (thermal_speed_validated E T particle method mass)"

text \<open>
  \<^verbatim>\<open>kappa_thermal_speed\<close>, source lines 634 to 652; the inner call leaves
  \<^verbatim>\<open>mass\<close> at its default \<^verbatim>\<open>np.nan * u.kg\<close>. The source formats the value of
  \<^verbatim>\<open>kappa\<close> into the message of its ValueError; the model keeps the fixed text.
\<close>

definition f_sub :: "float64 \<Rightarrow> float64 \<Rightarrow> float64" where
  "f_sub x y = f_add x (f_neg y)"

definition kappa_thermal_speed_body ::
  "env \<Rightarrow> float64 nd \<Rightarrow> float64 \<Rightarrow> string \<Rightarrow> string \<Rightarrow> float64 nd result" where
  "kappa_thermal_speed_body E T kappa particle method =
     (if f_le kappa (Finite (3 / 2)) then
        raise (ValueError ''Must have kappa > 3/2 for kappa distribution function to be valid.'')
      else
        bind_r (thermal_speed E T particle method NaN) (\<lambda>vTh.
          ok (elementwise (\<lambda>v. f_mul v
                (if method = ''most_probable''
                 then f_sqrt (f_div (f_sub kappa (Finite (3 / 2))) kappa)
                 else Finite 1)) vTh)))"

definition kappa_thermal_speed_validated ::
  "env \<Rightarrow> float64 nd \<Rightarrow> float64 \<Rightarrow> string \<Rightarrow> string \<Rightarrow> float64 nd result" where
  "kappa_thermal_speed_validated E T kappa particle method =
     bind_r (lift (validate_array (nonneg (vq_default E)) T)) (\<lambda>T'.
     bind_r (kappa_thermal_speed_body E T' kappa particle method) (\<lambda>V.
       lift (validate_array (vq_default E) V)))"

definition kappa_thermal_speed ::
  "env \<Rightarrow> float64 nd \<Rightarrow> float64 \<Rightarrow> string \<Rightarrow> string \<Rightarrow> float64 nd result" where
  "kappa_thermal_speed E T kappa particle method =
     check_relativistic E (kappa_thermal_speed_validated E T kappa particle method)"

section \<open>Gyrofrequency, plasma frequency, lower hybrid frequency\<close>

definition gyrofrequency_body ::
  "env \<Rightarrow> float64 \<Rightarrow> string \<Rightarrow> bool \<Rightarrow> pyval option \<Rightarrow> float64 result" where
  "gyrofrequency_body E B particle signed Z =
     bind_r (lift (particle_mass E particle)) (\<lambda>m_i.
     bind_r (lift (grab_charge E particle Z)) (\<lambda>Z1.
     bind_r (lift (if \<not> signed then py_abs Z1 else Inr Z1)) (\<lambda>Z2.
     bind_r (lift (as_float Z2)) (\<lambda>z.
       ok (f_div (f_mul (f_mul z (Finite (e_si E))) (f_abs B)) m_i)))))"

definition gyrofrequency ::
  "env \<Rightarrow> float64 \<Rightarrow> string \<Rightarrow> bool \<Rightarrow> pyval option \<Rightarrow> bool \<Rightarrow> float64 result" where
  "gyrofrequency E B particle signed Z to_hz =
     bind_r (lift (validate_quantity (vq_default E) B)) (\<lambda>B'.
     bind_r (angular_freq_to_hz to_hz (gyrofrequency_body E B' particle signed Z)) (\<lambda>omega_ci.
       lift (validate_quantity (vq_default E) omega_ci)))"

text \<open>
  \<^verbatim>\<open>plasma_frequency\<close>, source lines 1054 to 1074: the outer \<^verbatim>\<open>try\<close> turns
  every exception of the mass lookup and of \<^verbatim>\<open>np.abs(Z)\<close> into a ValueError; the
  inner one replaces a failed charge lookup by \<^verbatim>\<open>Z = 1\<close>.
\<close>

definition plasma_frequency_charge :: "env \<Rightarrow> string \<Rightarrow> pyval option \<Rightarrow> exn + float64 \<times> float64" where
  "plasma_frequency_charge E particle z_mean =
     bind_e (particle_mass E particle) (\<lambda>m.
     bind_e (Inr (case z_mean of
                    None \<Rightarrow> (case integer_charge E particle of
                               Inl _ \<Rightarrow> PyInt 1
                             | Inr Z \<Rightarrow> PyInt Z)
                  | Some z \<Rightarrow> z)) (\<lambda>Z.
     bind_e (py_abs Z) (\<lambda>Z1.
     bind_e (as_float Z1) (\<lambda>z. Inr (m, z)))))"

definition plasma_frequency_body ::
  "env \<Rightarrow> float64 \<Rightarrow> string \<Rightarrow> pyval option \<Rightarrow> float64 result" where
  "plasma_frequency_body E n particle z_mean =
     (case plasma_frequency_charge E particle z_mean of
        Inl _ \<Rightarrow> raise (ValueError (''Invalid particle, '' @ particle @ '', in plasma_frequency.''))
      | Inr (m, Z) \<Rightarrow>
          ok (f_mul (f_mul Z (Finite (e_si E))) (f_sqrt (f_div n (f_mul (Finite (eps0 E)) m)))))"

definition plasma_frequency ::
  "env \<Rightarrow> float64 \<Rightarrow> string \<Rightarrow> pyval option \<Rightarrow> bool \<Rightarrow> float64 result" where
  "plasma_frequency E n particle z_mean to_hz =
     bind_r (lift (validate_quantity (nonneg (vq_default E)) n)) (\<lambda>n'.
     bind_r (angular_freq_to_hz to_hz (plasma_frequency_body E n' particle z_mean)) (\<lambda>omega_p.
       lift (validate_quantity (vq_default E) omega_p)))"

definition lower_hybrid_frequency_body ::
  "env \<Rightarrow> float64 \<Rightarrow> float64 \<Rightarrow> string \<Rightarrow> float64 result" where
  "lower_hybrid_frequency_body E B n_i ion =
     (case integer_charge E ion of
        Inl _ \<Rightarrow> raise (ValueError ''Invalid ion in lower_hybrid_frequency.'')
      | Inr _ \<Rightarrow>
          bind_r (gyrofrequency E B ion False None False) (\<lambda>omega_ci.
          bind_r (plasma_frequency E n_i ion None False) (\<lambda>omega_pi.
          bind_r (gyrofrequency E B ''e-'' False None False) (\<lambda>omega_ce.
            ok (f_pow_mhalf (f_add (f_pow_m1 (f_mul omega_ci omega_ce)) (f_pow_m2 omega_pi)))))))"

definition lower_hybrid_frequency ::
  "env \<Rightarrow> float64 \<Rightarrow> float64 \<Rightarrow> string \<Rightarrow> bool \<Rightarrow> float64 result" where
  "lower_hybrid_frequency E B n_i ion to_hz =
     bind_r (lift (validate_quantity (vq_default E) B)) (\<lambda>B'.
     bind_r (lift (validate_quantity (nonneg (vq_default E)) n_i)) (\<lambda>n_i'.
     bind_r (angular_freq_to_hz to_hz (lower_hybrid_frequency_body E B' n_i' ion)) (\<lambda>omega_lh.
       lift (validate_quantity (vq_default E) omega_lh))))"

section \<open>Gyroradius\<close>

text \<open>
  \<^verbatim>\<open>gyroradius\<close> overwrites elements of an array, so arrays live in a store: an
  address is an index into the list of allocated arrays, \<^verbatim>\<open>Vperp.copy()\<close> allocates
  a new one. \<^verbatim>\<open>Vperp\<close> is passed as a scalar or as the address of the caller's
  array; \<^verbatim>\<open>T_i\<close> is only read and passed by value.
\<close>

type_synonym heap = "float64 list list"

datatype qref = ScalarV float64 | ArrayRef nat

fun deref :: "heap \<Rightarrow> qref \<Rightarrow> float64 nd" where
  "deref h (ScalarV x) = Scalar x"
| "deref h (ArrayRef a) = Array (h ! a)"

definition np_copy :: "heap \<Rightarrow> nat \<Rightarrow> nat \<times> heap" where
  "np_copy h a = (length h, h @ [h ! a])"

text \<open>NumPy broadcasting of an elementwise binary operation, for scalars and
  one-dimensional arrays.\<close>

fun broadcast2 :: "('a \<Rightarrow> 'b \<Rightarrow> 'c) \<Rightarrow> 'a nd \<Rightarrow> 'b nd \<Rightarrow> exn + 'c nd" where
  "broadcast2 f (Scalar x) (Scalar y) = Inr (Scalar (f x y))"
| "broadcast2 f (Scalar x) (Array ys) = Inr (Array (map (f x) ys))"
| "broadcast2 f (Array xs) (Scalar y) = Inr (Array (map (\<lambda>x. f x y) xs))"
| "broadcast2 f (Array xs) (Array ys) =
     (if length xs = length ys then Inr (Array (map2 f xs ys))
      else if length xs = 1 then Inr (Array (map (f (hd xs)) ys))
      else if length ys = 1 then Inr (Array (map (\<lambda>x. f x (hd ys)) xs))
      else Inl (ValueError ''operands could not be broadcast together''))"

definition np_any :: "bool nd \<Rightarrow> bool" where
  "np_any m = list_ex id (elems m)"

text \<open>Boolean-mask indexing: \<^verbatim>\<open>T_i[mask]\<close> and \<^verbatim>\<open>Vperp[mask] = values\<close>.\<close>

fun mask_select :: "'a list \<Rightarrow> bool list \<Rightarrow> 'a list" where
  "mask_select (x # xs) (m # ms) = (if m then x # mask_select xs ms else mask_select xs ms)"
| "mask_select xs ms = []"

fun mask_assign :: "'a list \<Rightarrow> bool list \<Rightarrow> 'a list \<Rightarrow> 'a list" where
  "mask_assign (x # xs) (m # ms) vs =
     (if m then (case vs of v # vs' \<Rightarrow> v # mask_assign xs ms vs' | [] \<Rightarrow> x # mask_assign xs ms [])
      else x # mask_assign xs ms vs)"
| "mask_assign xs ms vs = xs"

definition mask_store :: "heap \<Rightarrow> nat \<Rightarrow> bool list \<Rightarrow> float64 list \<Rightarrow> exn + heap" where
  "mask_store h a msk vs =
     (if length msk \<noteq> length (h ! a) then Inl IndexError
      else if length vs \<noteq> length (filter id msk)
        then Inl (ValueError ''NumPy boolean array indexing assignment cannot assign input values'')
      else Inr (h[a := mask_assign (h ! a) msk vs]))"

definition gyroradius_finish ::
  "env \<Rightarrow> float64 \<Rightarrow> string \<Rightarrow> float64 nd \<Rightarrow> float64 nd result" where
  "gyroradius_finish E B particle Vperp =
     bind_r (gyrofrequency E B particle False None False) (\<lambda>omega_ci.
       ok (elementwise (\<lambda>v. f_div (f_abs v) omega_ci) Vperp))"

text \<open>
  Check 2 of the source (lines 937 to 968): \<^verbatim>\<open>Vperp\<close> becomes the thermal speed
  wherever it was not given. Only the last case writes to an array, and it writes to
  the copy.
\<close>

definition gyroradius_check2 ::
  "env \<Rightarrow> heap \<Rightarrow> string \<Rightarrow> qref \<Rightarrow> float64 nd \<Rightarrow> float64 nd result \<times> heap" where
  "gyroradius_check2 E h particle Vperp T_i =
     (case (Vperp, T_i) of
        (ScalarV v, Scalar t) \<Rightarrow>
          (if isfinite t then thermal_speed E (Scalar t) particle ''most_probable'' NaN
           else ok (Scalar v), h)
      | (ScalarV v, Array ts) \<Rightarrow>
          (if isfinite v then ok (Array (replicate (length ts) v))
           else thermal_speed E (Array ts) particle ''most_probable'' NaN, h)
      | (ArrayRef a, Scalar t) \<Rightarrow>
          (if isfinite t
           then thermal_speed E (Array (replicate (length (h ! a)) t)) particle ''most_probable'' NaN
           else ok (Array (h ! a)), h)
      | (ArrayRef a, Array ts) \<Rightarrow>
          (case np_copy h a of
             (a', h1) \<Rightarrow>
               (case thermal_speed E (Array (mask_select ts (map isfinite ts))) particle
                       ''most_probable'' NaN of
                  (ws, Inl ex) \<Rightarrow> ((ws, Inl ex), h1)
                | (ws, Inr sp) \<Rightarrow>
                    (case mask_store h1 a' (map isfinite ts) (elems sp) of
                       Inl ex \<Rightarrow> ((ws, Inl ex), h1)
                     | Inr h2 \<Rightarrow> ((ws, Inr (Array (h2 ! a'))), h2)))))"

text \<open>
  The body: check 1 (lines 929 to 935) raises unless exactly one of \<^verbatim>\<open>Vperp\<close> and
  \<^verbatim>\<open>T_i\<close> is finite at every position, check 2 fills \<^verbatim>\<open>Vperp\<close> in, and the
  result is \<^verbatim>\<open>np.abs(Vperp) / omega_ci\<close>.
\<close>

definition gyroradius_body ::
  "env \<Rightarrow> heap \<Rightarrow> float64 \<Rightarrow> string \<Rightarrow> qref \<Rightarrow> float64 nd \<Rightarrow> float64 nd result \<times> heap" where
  "gyroradius_body E h B particle Vperp T_i =
     (case broadcast2 (\<lambda>x y. x \<noteq> y) (elementwise isfinite (deref h Vperp)) (elementwise isfinite T_i) of
        Inl ex \<Rightarrow> (raise ex, h)
      | Inr x \<Rightarrow>
          if np_any (elementwise Not x) then
            (raise (ValueError ''Must give Vperp or T_i, but not both, as arguments to gyroradius''), h)
          else
            (case gyroradius_check2 E h particle Vperp T_i of
               (Vperp', h') \<Rightarrow> (bind_r Vperp' (gyroradius_finish E B particle), h')))"

definition nan_ok :: "vspec \<Rightarrow> vspec" where
  "nan_ok s = s\<lparr>can_be_nan := True\<rparr>"

definition gyroradius ::
  "env \<Rightarrow> heap \<Rightarrow> float64 \<Rightarrow> string \<Rightarrow> qref \<Rightarrow> float64 nd \<Rightarrow> float64 nd result \<times> heap" where
  "gyroradius E h B particle Vperp T_i =
     (case validate_quantity (vq_default E) B of
        Inl ex \<Rightarrow> (raise ex, h)
      | Inr B' \<Rightarrow>
     (case validate_array (nan_ok (vq_default E)) (deref h Vperp) of
        Inl ex \<Rightarrow> (raise ex, h)
      | Inr _ \<Rightarrow>
     (case validate_array (nan_ok (vq_default E)) T_i of
        Inl ex \<Rightarrow> (raise ex, h)
      | Inr T_i' \<Rightarrow>
     (case gyroradius_body E h B' particle Vperp T_i' of
        (r, h') \<Rightarrow> (bind_r r (\<lambda>r_Li. lift (validate_array (vq_default E) r_Li)), h')))))"

section \<open>A concrete environment\<close>

text \<open>
  A small particle table with the CODATA 2014 constants in SI units, used to evaluate
  the formulas on concrete inputs. The hydrogen atom \<^verbatim>\<open>H\<close> has a mass but no
  charge information.
\<close>

definition env0 :: env where
  "env0 = \<lparr>
     particle_mass = (\<lambda>p.
       if p = ''e-'' then Inr (Finite (910938356 / 10 ^ 39))
       else if p = ''p+'' then Inr (Finite (1672621898 / 10 ^ 36))
       else if p = ''D+'' then Inr (Finite (3343583719 / 10 ^ 36))
       else if p = ''H'' then Inr (Finite (1673823 / 10 ^ 33))
       else Inl InvalidParticleError),
     integer_charge = (\<lambda>p.
       if p = ''e-'' then Inr (- 1)
       else if p = ''p+'' then Inr 1
       else if p = ''D+'' then Inr 1
       else Inl InvalidParticleError),
     Particle = (\<lambda>p.
       if p = ''e-'' \<or> p = ''p+'' \<or> p = ''D+'' \<or> p = ''H'' then Inr p
       else Inl InvalidParticleError),
     vq_default = \<lparr>can_be_negative = True, can_be_nan = True, none_shall_pass = False\<rparr>,
     m_e = 910938356 / 10 ^ 39,
     c_si = 299792458,
     mu0 = 4 * pi / 10 ^ 7,
     k_B = 138064852 / 10 ^ 31,
     e_si = 16021766208 / 10 ^ 29,
     eps0 = 8854187817 / 10 ^ 21\<rparr>"

text \<open>
  The element positions of a pair of values: each element of an array is paired with
  the scalar, or with the element of the other array at the same index.
\<close>

fun positions :: "'a nd \<Rightarrow> 'b nd \<Rightarrow> ('a \<times> 'b) list" where
  "positions (Scalar v) (Scalar t) = [(v, t)]"
| "positions (Scalar v) (Array ts) = map (Pair v) ts"
| "positions (Array vs) (Scalar t) = map (\<lambda>v. (v, t)) vs"
| "positions (Array vs) (Array ts) = zip vs ts"

text \<open>
  Two runs that return or raise the same, the first with one more warning emitted
  ahead of the warnings of the second (or with the same warnings when both raise).
\<close>

definition warned :: "warning \<Rightarrow> 'a result \<Rightarrow> 'a result \<Rightarrow> bool" where
  "warned W a b = (snd a = snd b \<and> (fst a = W # fst b \<or> fst a = fst b \<and> isl (snd b)))"

section \<open>Results: basic laws\<close>

lemma bind_r_lift_Inr [simp]: "bind_r (lift (Inr x)) f = f x"
  by (simp add: bind_r_def lift_def split: prod.splits)

lemma bind_r_lift_Inl [simp]: "bind_r (lift (Inl ex)) f = ([], Inl ex)"
  by (simp add: bind_r_def lift_def)

lemma bind_r_ok [simp]: "bind_r (ok x) f = f x"
  by (simp add: bind_r_def ok_def split: prod.splits)

lemma bind_r_raise [simp]: "bind_r (raise ex) f = ([], Inl ex)"
  by (simp add: bind_r_def raise_def)

lemma bind_r_Inl [simp]: "bind_r (ws, Inl ex) f = (ws, Inl ex)"
  by (simp add: bind_r_def)

lemma bind_r_Inr: "bind_r (ws, Inr x) f = (ws @ fst (f x), snd (f x))"
  by (simp add: bind_r_def split: prod.splits)

lemma bind_e_Inr [simp]: "bind_e (Inr x) f = f x"
  by (simp add: bind_e_def)

lemma bind_e_Inl [simp]: "bind_e (Inl ex) f = Inl ex"
  by (simp add: bind_e_def)

lemma validate_quantity_Inr: "validate_quantity s x = Inr y \<Longrightarrow> y = x"
  by (simp add: validate_quantity_def split: if_splits)

lemma bind_r_success:
  assumes "bind_r m f = (ws, Inr y)"
  obtains ws1 x ws2 where "m = (ws1, Inr x)" "f x = (ws2, Inr y)" "ws = ws1 @ ws2"
  using assms by (cases m; cases "snd m") (auto simp: bind_r_def split: prod.splits)

lemma lift_success: "lift r = (ws, Inr x) \<Longrightarrow> r = Inr x \<and> ws = []"
  by (simp add: lift_def)

lemma validate_array_Inr: "validate_array s x = Inr y \<Longrightarrow> y = x"
  by (simp add: validate_array_def split: if_splits)

lemma check_relativistic_success:
  assumes "check_relativistic E m = (ws, Inr v)"
  obtains ws' where "m = (ws', Inr v)"
proof -
  from assms obtain ws1 x ws2 where m: "m = (ws1, Inr x)"
    and g: "(case max_magnitude x of
         None \<Rightarrow> raise (ValueError ''zero-size array to reduction operation maximum which has no identity'')
       | Some b \<Rightarrow> if f_le (Finite (c_si E)) b then raise RelativityError
                   else if f_le (Finite (0.05 * c_si E)) b
                     then bind_r (warn RelativityWarning) (\<lambda>_. ok x)
                   else ok x) = (ws2, Inr v)"
    unfolding check_relativistic_def by (rule bind_r_success)
  from g have "x = v"
    by (auto simp: ok_def raise_def warn_def bind_r_Inr split: option.splits if_splits)
  with m that show ?thesis by blast
qed

section \<open>Charge precedence\<close>

text \<open>
  Claim C1. For every particle descriptor and every provided \<^verbatim>\<open>z_mean\<close> (negative,
  zero or fractional alike), the charge merge returns exactly \<^verbatim>\<open>z_mean\<close>, whatever the
  particle's own charge is or whether it resolves at all; when \<^verbatim>\<open>z_mean\<close> is absent
  it returns the integer charge the particle resolves to (and raises what the lookup
  raises).
\<close>

theorem grab_charge_precedence:
  "grab_charge E ion (Some z) = Inr z \<and>
   grab_charge E ion None =
     (case integer_charge E ion of Inl ex \<Rightarrow> Inl ex | Inr Z \<Rightarrow> Inr (PyInt Z))"
  by (simp add: grab_charge_def bind_e_def)

theorem grab_charge_precedence_witness:
  "grab_charge env0 ''p+'' (Some (PyFloat (Finite (- 1 / 2)))) = Inr (PyFloat (Finite (- 1 / 2))) \<and>
   grab_charge env0 ''p+'' (Some (PyInt 0)) = Inr (PyInt 0) \<and>
   grab_charge env0 ''p+'' None = Inr (PyInt 1) \<and>
   grab_charge env0 ''H'' None = Inl InvalidParticleError"
  using grab_charge_precedence [of env0 "''p+''" "PyFloat (Finite (- 1 / 2))"]
    grab_charge_precedence [of env0 "''p+''" "PyInt 0"]
    grab_charge_precedence [of env0 "''H''" "PyInt 0"]
  by (simp add: env0_def)

lemma bind_r_nil_Inr [simp]: "bind_r ([], Inr x) f = f x"
  by (simp add: bind_r_def split: prod.splits)

lemma env0_accepts [simp]: "validate_quantity (vq_default env0) w = Inr w"
  by (simp add: validate_quantity_def env0_def)

lemma env0_nonneg_accepts [simp]:
  "\<not> is_negative w \<Longrightarrow> validate_quantity (nonneg (vq_default env0)) w = Inr w"
  by (simp add: validate_quantity_def env0_def nonneg_def)

section \<open>Plasma frequency\<close>

text \<open>
  Claim C2. For a number density \<open>n\<close> that passes the input validation,
  \<^verbatim>\<open>plasma_frequency\<close> computes \<open>|Z| e sqrt (n / (eps0 m))\<close>: a particle whose mass
  does not resolve raises the ValueError of the function; with \<^verbatim>\<open>z_mean\<close> absent and
  a charge lookup that fails, \<open>Z = 1\<close> is used and the result is returned; otherwise
  \<open>Z\<close> is the resolved charge or the given \<^verbatim>\<open>z_mean\<close>. The returned value is the
  one that passes the validation of the return value.
\<close>

theorem plasma_frequency_formula:
  assumes n_ok: "validate_quantity (nonneg (vq_default E)) n = Inr n"
  shows
    "(\<forall>ex. particle_mass E p = Inl ex \<longrightarrow>
        plasma_frequency E n p z_mean to_hz =
          ([], Inl (ValueError (''Invalid particle, '' @ p @ '', in plasma_frequency.'')))) \<and>
     (\<forall>m ex w. particle_mass E p = Inr m \<longrightarrow> integer_charge E p = Inl ex \<longrightarrow>
        w = f_mul (f_mul (Finite 1) (Finite (e_si E))) (f_sqrt (f_div n (f_mul (Finite (eps0 E)) m))) \<longrightarrow>
        validate_quantity (vq_default E) w = Inr w \<longrightarrow>
        plasma_frequency E n p None False = ([], Inr w)) \<and>
     (\<forall>m Z w. particle_mass E p = Inr m \<longrightarrow>
        (z_mean = None \<and> (\<exists>i. integer_charge E p = Inr i \<and> Z = Finite (of_int i)) \<or>
         (\<exists>z. z_mean = Some z \<and> as_float z = Inr Z)) \<longrightarrow>
        w = f_mul (f_mul (f_abs Z) (Finite (e_si E))) (f_sqrt (f_div n (f_mul (Finite (eps0 E)) m))) \<longrightarrow>
        validate_quantity (vq_default E) w = Inr w \<longrightarrow>
        plasma_frequency E n p z_mean False = ([], Inr w))"
proof (intro conjI allI impI)
  fix ex assume "particle_mass E p = Inl ex"
  then show "plasma_frequency E n p z_mean to_hz =
          ([], Inl (ValueError (''Invalid particle, '' @ p @ '', in plasma_frequency.'')))"
    using n_ok
    by (simp add: plasma_frequency_def plasma_frequency_body_def plasma_frequency_charge_def
        angular_freq_to_hz_def)
next
  fix m ex w
  assume "particle_mass E p = Inr m" "integer_charge E p = Inl ex"
    "w = f_mul (f_mul (Finite 1) (Finite (e_si E))) (f_sqrt (f_div n (f_mul (Finite (eps0 E)) m)))"
    "validate_quantity (vq_default E) w = Inr w"
  then show "plasma_frequency E n p None False = ([], Inr w)"
    using n_ok
    by (simp add: plasma_frequency_def plasma_frequency_body_def plasma_frequency_charge_def
        angular_freq_to_hz_def lift_def)
next
  fix m Z w
  assume m: "particle_mass E p = Inr m"
    and Z: "z_mean = None \<and> (\<exists>i. integer_charge E p = Inr i \<and> Z = Finite (of_int i)) \<or>
         (\<exists>z. z_mean = Some z \<and> as_float z = Inr Z)"
    and w: "w = f_mul (f_mul (f_abs Z) (Finite (e_si E))) (f_sqrt (f_div n (f_mul (Finite (eps0 E)) m)))"
    and ret: "validate_quantity (vq_default E) w = Inr w"
  from Z have "plasma_frequency_charge E p z_mean = Inr (m, f_abs Z)"
  proof
    assume "z_mean = None \<and> (\<exists>i. integer_charge E p = Inr i \<and> Z = Finite (of_int i))"
    then show ?thesis using m by (auto simp: plasma_frequency_charge_def)
  next
    assume "\<exists>z. z_mean = Some z \<and> as_float z = Inr Z"
    then obtain z where z: "z_mean = Some z" "as_float z = Inr Z" by blast
    then show ?thesis using m by (cases z) (auto simp: plasma_frequency_charge_def)
  qed
  then show "plasma_frequency E n p z_mean False = ([], Inr w)"
    using n_ok w ret
    by (simp add: plasma_frequency_def plasma_frequency_body_def angular_freq_to_hz_def lift_def)
qed

theorem plasma_frequency_formula_witness:
  "validate_quantity (nonneg (vq_default env0)) (Finite (10 ^ 19)) = Inr (Finite (10 ^ 19)) \<and>
   plasma_frequency env0 (Finite (10 ^ 19)) ''Xx'' None False =
     ([], Inl (ValueError ''Invalid particle, Xx, in plasma_frequency.'')) \<and>
   plasma_frequency env0 (Finite (10 ^ 19)) ''H'' None False =
     ([], Inr (f_mul (f_mul (Finite 1) (Finite (e_si env0)))
                 (f_sqrt (f_div (Finite (10 ^ 19)) (f_mul (Finite (eps0 env0)) (Finite (1673823 / 10 ^ 33))))))) \<and>
   plasma_frequency env0 (Finite (10 ^ 19)) ''e-'' None False =
     ([], Inr (f_mul (f_mul (f_abs (Finite (- 1))) (Finite (e_si env0)))
                 (f_sqrt (f_div (Finite (10 ^ 19)) (f_mul (Finite (eps0 env0)) (Finite (910938356 / 10 ^ 39)))))))"
proof -
  have n: "validate_quantity (nonneg (vq_default env0)) (Finite (10 ^ 19)) = Inr (Finite (10 ^ 19))"
    by simp
  have 1: "particle_mass env0 ''Xx'' = Inl InvalidParticleError"
    and 2: "particle_mass env0 ''H'' = Inr (Finite (1673823 / 10 ^ 33))"
    and 3: "integer_charge env0 ''H'' = Inl InvalidParticleError"
    and 4: "particle_mass env0 ''e-'' = Inr (Finite (910938356 / 10 ^ 39))"
    and 5: "integer_charge env0 ''e-'' = Inr (- 1)"
    by (simp_all add: env0_def)
  show ?thesis
    using n 1 2 3 4 5
      plasma_frequency_formula [OF n, of "''Xx''" None False]
      plasma_frequency_formula [OF n, of "''H''" None False]
      plasma_frequency_formula [OF n, of "''e-''" None False]
    by simp
qed

section \<open>Lower hybrid frequency\<close>

text \<open>
  Claim C5. For a magnetic field and an ion density that pass the input validation:
  an ion whose charge lookup fails raises the ValueError of the function; for an ion
  whose charge resolves, the looked-up charge is discarded and the function returns
  \<open>((omega_ci omega_ce)^-1 + omega_pi^-2)^(-1/2)\<close>, where \<open>omega_ci\<close> is
  \<^verbatim>\<open>gyrofrequency(B, particle=ion)\<close>, \<open>omega_pi\<close> is
  \<^verbatim>\<open>plasma_frequency(n_i, particle=ion)\<close> and \<open>omega_ce\<close> is
  \<^verbatim>\<open>gyrofrequency(B)\<close> of the electron.
\<close>

theorem lower_hybrid_frequency_formula:
  assumes B_ok: "validate_quantity (vq_default E) B = Inr B"
    and n_ok: "validate_quantity (nonneg (vq_default E)) n_i = Inr n_i"
  shows
    "(\<forall>ex. integer_charge E ion = Inl ex \<longrightarrow>
        lower_hybrid_frequency E B n_i ion to_hz =
          ([], Inl (ValueError ''Invalid ion in lower_hybrid_frequency.''))) \<and>
     (\<forall>Z ws1 ws2 ws3 omega_ci omega_pi omega_ce w.
        integer_charge E ion = Inr Z \<longrightarrow>
        gyrofrequency E B ion False None False = (ws1, Inr omega_ci) \<longrightarrow>
        plasma_frequency E n_i ion None False = (ws2, Inr omega_pi) \<longrightarrow>
        gyrofrequency E B ''e-'' False None False = (ws3, Inr omega_ce) \<longrightarrow>
        w = f_pow_mhalf (f_add (f_pow_m1 (f_mul omega_ci omega_ce)) (f_pow_m2 omega_pi)) \<longrightarrow>
        validate_quantity (vq_default E) w = Inr w \<longrightarrow>
        lower_hybrid_frequency E B n_i ion False = (ws1 @ ws2 @ ws3, Inr w))"
  using B_ok n_ok
  by (simp add: lower_hybrid_frequency_def lower_hybrid_frequency_body_def angular_freq_to_hz_def
      bind_r_Inr ok_def lift_def)

theorem lower_hybrid_frequency_formula_witness:
  "validate_quantity (vq_default env0) (Finite (1 / 5)) = Inr (Finite (1 / 5)) \<and>
   validate_quantity (nonneg (vq_default env0)) (Finite (5 * 10 ^ 19)) = Inr (Finite (5 * 10 ^ 19)) \<and>
   lower_hybrid_frequency env0 (Finite (1 / 5)) (Finite (5 * 10 ^ 19)) ''Xx'' False =
     ([], Inl (ValueError ''Invalid ion in lower_hybrid_frequency.'')) \<and>
   lower_hybrid_frequency env0 (Finite (1 / 5)) (Finite (5 * 10 ^ 19)) ''D+'' False =
     ([], Inr (f_pow_mhalf (f_add
        (f_pow_m1 (f_mul
           (f_div (f_mul (f_mul (Finite 1) (Finite (e_si env0))) (f_abs (Finite (1 / 5))))
              (Finite (3343583719 / 10 ^ 36)))
           (f_div (f_mul (f_mul (Finite 1) (Finite (e_si env0))) (f_abs (Finite (1 / 5))))
              (Finite (910938356 / 10 ^ 39)))))
        (f_pow_m2
           (f_mul (f_mul (Finite 1) (Finite (e_si env0)))
              (f_sqrt (f_div (Finite (5 * 10 ^ 19))
                 (f_mul (Finite (eps0 env0)) (Finite (3343583719 / 10 ^ 36))))))))))"
proof -
  have B: "validate_quantity (vq_default env0) (Finite (1 / 5)) = Inr (Finite (1 / 5))"
    by simp
  have n: "validate_quantity (nonneg (vq_default env0)) (Finite (5 * 10 ^ 19)) = Inr (Finite (5 * 10 ^ 19))"
    by simp
  have 1: "particle_mass env0 ''D+'' = Inr (Finite (3343583719 / 10 ^ 36))"
    and 2: "integer_charge env0 ''D+'' = Inr 1"
    and 3: "particle_mass env0 ''e-'' = Inr (Finite (910938356 / 10 ^ 39))"
    and 4: "integer_charge env0 ''e-'' = Inr (- 1)"
    and 5: "integer_charge env0 ''Xx'' = Inl InvalidParticleError"
    by (simp_all add: env0_def)
  have ci: "gyrofrequency env0 (Finite (1 / 5)) ''D+'' False None False =
      ([], Inr (f_div (f_mul (f_mul (Finite 1) (Finite (e_si env0))) (f_abs (Finite (1 / 5))))
              (Finite (3343583719 / 10 ^ 36))))"
    using 1 2
    by (simp add: gyrofrequency_def gyrofrequency_body_def angular_freq_to_hz_def grab_charge_def
        lift_def ok_def)
  have ce: "gyrofrequency env0 (Finite (1 / 5)) ''e-'' False None False =
      ([], Inr (f_div (f_mul (f_mul (Finite 1) (Finite (e_si env0))) (f_abs (Finite (1 / 5))))
              (Finite (910938356 / 10 ^ 39))))"
    using 3 4
    by (simp add: gyrofrequency_def gyrofrequency_body_def angular_freq_to_hz_def grab_charge_def
        lift_def ok_def)
  have pi: "plasma_frequency env0 (Finite (5 * 10 ^ 19)) ''D+'' None False =
      ([], Inr (f_mul (f_mul (Finite 1) (Finite (e_si env0)))
              (f_sqrt (f_div (Finite (5 * 10 ^ 19))
                 (f_mul (Finite (eps0 env0)) (Finite (3343583719 / 10 ^ 36)))))))"
    using 1 2
    by (simp add: plasma_frequency_def plasma_frequency_body_def plasma_frequency_charge_def
        angular_freq_to_hz_def lift_def ok_def)
  from lower_hybrid_frequency_formula [OF B n, of "''Xx''" False] 5
  have a: "lower_hybrid_frequency env0 (Finite (1 / 5)) (Finite (5 * 10 ^ 19)) ''Xx'' False =
     ([], Inl (ValueError ''Invalid ion in lower_hybrid_frequency.''))"
    by blast
  from lower_hybrid_frequency_formula [OF B n, of "''D+''" False] 2 ci ce pi env0_accepts
  have b: "lower_hybrid_frequency env0 (Finite (1 / 5)) (Finite (5 * 10 ^ 19)) ''D+'' False =
     ([] @ [] @ [], Inr (f_pow_mhalf (f_add
        (f_pow_m1 (f_mul
           (f_div (f_mul (f_mul (Finite 1) (Finite (e_si env0))) (f_abs (Finite (1 / 5))))
              (Finite (3343583719 / 10 ^ 36)))
           (f_div (f_mul (f_mul (Finite 1) (Finite (e_si env0))) (f_abs (Finite (1 / 5))))
              (Finite (910938356 / 10 ^ 39)))))
        (f_pow_m2
           (f_mul (f_mul (Finite 1) (Finite (e_si env0)))
              (f_sqrt (f_div (Finite (5 * 10 ^ 19))
                 (f_mul (Finite (eps0 env0)) (Finite (3343583719 / 10 ^ 36))))))))))"
    by blast
  show ?thesis using B n a b by simp
qed

section \<open>Mass density\<close>

text \<open>
  Claim C6. A density that already is a mass density is returned unchanged; a number
  density \<open>n\<close> with a particle gives \<open>n m_ion + Z n m_e\<close> with \<open>Z\<close> from the
  charge merge; a number density without a particle raises ValueError. In particular
  four deuterons per cubic metre weigh \<open>4 m_D + 1 * 4 * m_e\<close>. Densities are those the
  input validation accepts, and the returned value is the one the validation of the
  return value accepts.
\<close>

theorem mass_density_cases:
  "(\<forall>rho. validate_quantity (nonneg (vq_default E)) rho = Inr rho \<longrightarrow>
      mass_density E (MassDensity rho) particle z_mean = ([], Inr rho)) \<and>
   (\<forall>n p m Z z rho.
      validate_quantity (nonneg (vq_default E)) n = Inr n \<longrightarrow>
      p \<noteq> [] \<longrightarrow> particle_mass E p = Inr m \<longrightarrow>
      grab_charge E p z_mean = Inr Z \<longrightarrow> as_float Z = Inr z \<longrightarrow>
      rho = f_add (f_mul n m) (f_mul (f_mul z n) (Finite (m_e E))) \<longrightarrow>
      validate_quantity (nonneg (vq_default E)) rho = Inr rho \<longrightarrow>
      mass_density E (NumberDensity n) (Some p) z_mean = ([], Inr rho)) \<and>
   (\<forall>n. validate_quantity (nonneg (vq_default E)) n = Inr n \<longrightarrow>
      mass_density E (NumberDensity n) None z_mean =
        ([], Inl (ValueError ''If passing a number density, you must pass a particle (not None) to calculate the mass density!''))) \<and>
   (\<forall>m rho.
      particle_mass E ''D+'' = Inr m \<longrightarrow> integer_charge E ''D+'' = Inr 1 \<longrightarrow>
      rho = f_add (f_mul (Finite 4) m) (f_mul (f_mul (Finite 1) (Finite 4)) (Finite (m_e E))) \<longrightarrow>
      validate_quantity (nonneg (vq_default E)) rho = Inr rho \<longrightarrow>
      mass_density E (NumberDensity (Finite 4)) (Some ''D+'') None = ([], Inr rho))"
proof -
  have number: "mass_density E (NumberDensity n) (Some p) zm = ([], Inr rho)"
    if "validate_quantity (nonneg (vq_default E)) n = Inr n" "p \<noteq> []"
      "particle_mass E p = Inr m" "grab_charge E p zm = Inr Z" "as_float Z = Inr z"
      "rho = f_add (f_mul n m) (f_mul (f_mul z n) (Finite (m_e E)))"
      "validate_quantity (nonneg (vq_default E)) rho = Inr rho"
    for n p m Z z rho zm
    using that
    by (simp add: mass_density_def mass_density_body_def validate_density_def lift_def)
  have four: "validate_quantity (nonneg (vq_default E)) (Finite 4) = Inr (Finite 4)"
    by (simp add: validate_quantity_def)
  have mass: "mass_density E (MassDensity rho) particle z_mean = ([], Inr rho)"
    if "validate_quantity (nonneg (vq_default E)) rho = Inr rho" for rho
    using that
    by (simp add: mass_density_def mass_density_body_def validate_density_def lift_def)
  have none: "mass_density E (NumberDensity n) None z_mean =
        ([], Inl (ValueError ''If passing a number density, you must pass a particle (not None) to calculate the mass density!''))"
    if "validate_quantity (nonneg (vq_default E)) n = Inr n" for n
    using that
    by (simp add: mass_density_def mass_density_body_def validate_density_def repr_particle_def)
  have deuteron: "mass_density E (NumberDensity (Finite 4)) (Some ''D+'') None = ([], Inr rho)"
    if "particle_mass E ''D+'' = Inr m" "integer_charge E ''D+'' = Inr 1"
      "rho = f_add (f_mul (Finite 4) m) (f_mul (f_mul (Finite 1) (Finite 4)) (Finite (m_e E)))"
      "validate_quantity (nonneg (vq_default E)) rho = Inr rho" for m rho
    by (rule number [where Z = "PyInt 1" and z = "Finite 1" and m = m])
      (use that four in \<open>simp_all add: grab_charge_def\<close>)
  show ?thesis
    using number mass none deuteron by blast
qed

theorem mass_density_cases_witness:
  "mass_density env0 (MassDensity (Finite 5)) None None = ([], Inr (Finite 5)) \<and>
   mass_density env0 (NumberDensity (Finite 4)) (Some ''D+'') None =
     ([], Inr (Finite (13377978629424 / 10 ^ 39))) \<and>
   mass_density env0 (NumberDensity (Finite 4)) (Some ''p+'') (Some (PyFloat (Finite (1 / 2)))) =
     ([], Inr (f_add (f_mul (Finite 4) (Finite (1672621898 / 10 ^ 36)))
                 (f_mul (f_mul (Finite (1 / 2)) (Finite 4)) (Finite (m_e env0))))) \<and>
   mass_density env0 (NumberDensity (Finite 4)) None None =
     ([], Inl (ValueError ''If passing a number density, you must pass a particle (not None) to calculate the mass density!''))"
proof -
  have 1: "particle_mass env0 ''D+'' = Inr (Finite (3343583719 / 10 ^ 36))"
    and 2: "integer_charge env0 ''D+'' = Inr 1"
    and 3: "particle_mass env0 ''p+'' = Inr (Finite (1672621898 / 10 ^ 36))"
    and 4: "m_e env0 = 910938356 / 10 ^ 39"
    by (simp_all add: env0_def)
  have 5: "grab_charge env0 ''p+'' (Some (PyFloat (Finite (1 / 2)))) = Inr (PyFloat (Finite (1 / 2)))"
    by (simp add: grab_charge_def)
  show ?thesis
    using 1 2 3 4 5 mass_density_cases [of env0 None None]
      mass_density_cases [of env0 None "Some (PyFloat (Finite (1 / 2)))"]
    by simp
qed

section \<open>Thermal speed: validation of the mass\<close>

lemma validate_mass_nonfinite:
  "\<not> isfinite mass \<Longrightarrow> mass \<noteq> NInf \<Longrightarrow> validate_quantity (mass_spec E) mass = Inr mass"
  by (cases mass) (simp_all add: validate_quantity_def mass_spec_def)

lemma validate_mass_negative:
  "is_negative mass \<Longrightarrow> validate_quantity (mass_spec E) mass = Inl NegativeValueError"
  by (simp add: validate_quantity_def mass_spec_def)

lemma validate_mass_accepted:
  "\<not> is_negative mass \<Longrightarrow> validate_quantity (mass_spec E) mass = Inr mass"
  by (simp add: validate_quantity_def mass_spec_def)

section \<open>Ion sound speed: the final computation\<close>

text \<open>
  Claim C10. Once the mass and the charge have resolved, both adiabatic indices have
  passed their checks and the dispersion term is known, the only exception that
  \<^verbatim>\<open>ion_sound_speed\<close> can still raise from its body is the ValueError
  \<^verbatim>\<open>Unable to find ion sound speed.\<close>: it replaces whatever the evaluation of the
  last expression raises, and a value of that expression is returned as it is.
\<close>

theorem ion_sound_speed_final_step:
  assumes "particle_mass E ion = Inr m_i"
    and "grab_charge E ion z_mean = Inr Z"
    and "check_gamma gamma_e ''electrons'' = ([], Inr ())"
    and "check_gamma gamma_i ''ions'' = ([], Inr ())"
    and "dispersion E T_e n_e k = (ws, Inr klD2)"
  shows
    "(\<forall>ex. V_S_expr E gamma_e Z T_e gamma_i T_i m_i klD2 = Inl ex \<longrightarrow>
        ion_sound_speed_body E T_e T_i n_e k gamma_e gamma_i ion z_mean =
          (ws, Inl (ValueError ''Unable to find ion sound speed.''))) \<and>
     (\<forall>V_S. V_S_expr E gamma_e Z T_e gamma_i T_i m_i klD2 = Inr V_S \<longrightarrow>
        ion_sound_speed_body E T_e T_i n_e k gamma_e gamma_i ion z_mean = (ws, Inr (Scalar V_S))) \<and>
     (\<forall>ws' ex. ion_sound_speed_body E T_e T_i n_e k gamma_e gamma_i ion z_mean = (ws', Inl ex) \<longrightarrow>
        ex = ValueError ''Unable to find ion sound speed.'')"
  using assms
  by (cases "V_S_expr E gamma_e Z T_e gamma_i T_i m_i klD2")
    (simp_all add: ion_sound_speed_body_def bind_r_Inr raise_def ok_def)

theorem ion_sound_speed_final_step_witness:
  "particle_mass env0 ''p+'' = Inr (Finite (1672621898 / 10 ^ 36)) \<and>
   grab_charge env0 ''p+'' (Some PyObject) = Inr PyObject \<and>
   check_gamma (PyInt 1) ''electrons'' = ([], Inr ()) \<and>
   check_gamma (PyInt 3) ''ions'' = ([], Inr ()) \<and>
   dispersion env0 (Finite (5 * 10 ^ 6)) None None = ([], Inr (Finite 0)) \<and>
   V_S_expr env0 (PyInt 1) PyObject (Finite (5 * 10 ^ 6)) (PyInt 3) (Finite 0)
       (Finite (1672621898 / 10 ^ 36)) (Finite 0) = Inl (TypeError ''unsupported operand type'') \<and>
   ion_sound_speed_body env0 (Finite (5 * 10 ^ 6)) (Finite 0) None None (PyInt 1) (PyInt 3) ''p+''
       (Some PyObject) = ([], Inl (ValueError ''Unable to find ion sound speed.''))"
proof -
  have 1: "particle_mass env0 ''p+'' = Inr (Finite (1672621898 / 10 ^ 36))"
    by (simp add: env0_def)
  have 2: "grab_charge env0 ''p+'' (Some PyObject) = Inr PyObject"
    by (simp add: grab_charge_def)
  have 3: "check_gamma (PyInt 1) ''electrons'' = ([], Inr ())"
    and 4: "check_gamma (PyInt 3) ''ions'' = ([], Inr ())"
    by (simp_all add: check_gamma_def ok_def)
  have 5: "dispersion env0 (Finite (5 * 10 ^ 6)) None None = ([], Inr (Finite 0))"
    by (simp add: dispersion_def ok_def)
  have 6: "V_S_expr env0 (PyInt 1) PyObject (Finite (5 * 10 ^ 6)) (PyInt 3) (Finite 0)
       (Finite (1672621898 / 10 ^ 36)) (Finite 0) = Inl (TypeError ''unsupported operand type'')"
    by (simp add: V_S_expr_def)
  from ion_sound_speed_final_step [OF 1 2 3 4 5, of "Finite 0"] 6
  have 7: "ion_sound_speed_body env0 (Finite (5 * 10 ^ 6)) (Finite 0) None None (PyInt 1) (PyInt 3) ''p+''
       (Some PyObject) = ([], Inl (ValueError ''Unable to find ion sound speed.''))"
    by blast
  from 1 2 3 4 5 6 7 show ?thesis by blast
qed

section \<open>Ion sound speed: the dispersion term\<close>

lemma validate_nonneg_Finite:
  "validate_quantity (nonneg s) (Finite a) = (if a < 0 then Inl NegativeValueError else Inr (Finite a))"
  by (simp add: validate_quantity_def nonneg_def)

lemma validate_optional_None [simp]: "validate_optional (optional s) None = Inr None"
  by (simp add: validate_optional_def optional_def)

lemma validate_optional_Finite:
  "0 \<le> a \<Longrightarrow> validate_optional (optional (nonneg s)) (Some (Finite a)) = Inr (Some (Finite a))"
  by (simp add: validate_optional_def validate_quantity_def nonneg_def optional_def)

lemma validate_optional_Some:
  "validate_quantity (nonneg s) v = Inr v \<Longrightarrow>
   validate_optional (optional (nonneg s)) (Some v) = Inr (Some v)"
  by (simp add: validate_optional_def validate_quantity_def nonneg_def optional_def
      split: if_splits)

lemma dispersion_none [simp]: "dispersion E T_e None None = ([], Inr (Finite 0))"
  by (simp add: dispersion_def ok_def)

lemma warned_bind: "warned W a b \<Longrightarrow> warned W (bind_r a f) (bind_r b f)"
  by (cases a; cases b; cases "snd a")
    (auto simp: warned_def bind_r_def split: prod.splits sum.splits)

lemma warned_bind_right:
  "fst m = [] \<Longrightarrow> (\<And>x. warned W (f x) (g x)) \<Longrightarrow> warned W (bind_r m f) (bind_r m g)"
  by (cases m; cases "snd m") (auto simp: warned_def bind_r_def split: prod.splits)

lemma fst_lift [simp]: "fst (lift r) = []"
  by (simp add: lift_def)

lemma fst_check_gamma [simp]: "fst (check_gamma g p) = []"
  by (cases g) (simp_all add: check_gamma_def raise_def ok_def)

lemma warned_dispersion_n:
  "warned (PhysicsWarning ''The non-dispersive limit has been assumed for this calculation. To prevent this, values must be specified for both n_e and k.'')
     (dispersion E T_e (Some v) None) (dispersion E T_e None None)"
  by (simp add: warned_def dispersion_def warn_def bind_r_Inr ok_def)

lemma warned_dispersion_k:
  "warned (PhysicsWarning ''The non-dispersive limit has been assumed for this calculation. To prevent this, values must be specified for both n_e and k.'')
     (dispersion E T_e None (Some v)) (dispersion E T_e None None)"
  by (simp add: warned_def dispersion_def warn_def bind_r_Inr ok_def)

lemma warned_body:
  assumes "warned W (dispersion E T_e n k) (dispersion E T_e None None)"
  shows "warned W (ion_sound_speed_body E T_e T_i n k ge gi ion z)
           (ion_sound_speed_body E T_e T_i None None ge gi ion z)"
  unfolding ion_sound_speed_body_def
  by (intro warned_bind_right warned_bind assms) simp_all

lemma warned_ion_sound_speed:
  assumes d: "\<And>T_e. warned W (dispersion E T_e n k) (dispersion E T_e None None)"
    and n: "validate_optional (optional (nonneg (vq_default E))) n = Inr n"
    and k: "validate_optional (optional (nonneg (vq_default E))) k = Inr k"
  shows "warned W (ion_sound_speed E T_e T_i n k ge gi ion z)
           (ion_sound_speed E T_e T_i None None ge gi ion z)"
  unfolding ion_sound_speed_def check_relativistic_def ion_sound_speed_validated_def
  by (intro warned_bind warned_bind_right) (auto simp: n k intro!: warned_bind warned_body d)


lemma max_magnitude_Scalar [simp]: "max_magnitude (Scalar x) = Some (f_abs x)"
  by (simp add: max_magnitude_def)

lemma check_relativistic_below:
  assumes "0 \<le> x" "x < (0.05 * c_si E)\<^sup>2" "0 < c_si E"
  shows "check_relativistic E (ws, Inr (Scalar (Finite (sqrt x)))) =
           (ws, Inr (Scalar (Finite (sqrt x))))"
proof -
  have "sqrt x < 0.05 * c_si E"
    using assms by (intro real_less_lsqrt) simp_all
  then show ?thesis
    using assms by (simp add: check_relativistic_def bind_r_Inr ok_def)
qed

lemma ion_sound_speed_env0_value:
  "ion_sound_speed env0 (Finite (5 * 10 ^ 6)) (Finite 0) None None (PyInt 1) (PyInt 3) ''p+'' None =
     ([], Inr (Scalar (Finite (sqrt (138064852 / 10 ^ 31 * (5 * 10 ^ 6) / (1672621898 / 10 ^ 36))))))"
proof -
  let ?X = "138064852 / 10 ^ 31 * (5 * 10 ^ 6) / (1672621898 / 10 ^ 36) :: real"
  have "ion_sound_speed_validated env0 (Finite (5 * 10 ^ 6)) (Finite 0) None None (PyInt 1) (PyInt 3)
      ''p+'' None = ([], Inr (Scalar (Finite (sqrt ?X))))"
    by (simp add: ion_sound_speed_validated_def ion_sound_speed_body_def validate_nonneg_Finite
        grab_charge_def check_gamma_def V_S_expr_def validate_array_def env0_def ok_def lift_def)
  moreover have "check_relativistic env0 ([], Inr (Scalar (Finite (sqrt ?X)))) =
      ([], Inr (Scalar (Finite (sqrt ?X))))"
    by (rule check_relativistic_below) (simp_all add: env0_def power2_eq_square)
  ultimately show ?thesis
    by (simp only: ion_sound_speed_def)
qed

text \<open>
  Claim C4, as stated, fails for the electron density zero, which the validation
  accepts: the Debye length is then infinite, \<open>k lambda_D\<close> is zero times infinity,
  and the call with \<^verbatim>\<open>n_e = 0\<close> and \<^verbatim>\<open>k = 0\<close> returns NaN where the call
  without them returns the ion sound speed.
\<close>

theorem ion_sound_speed_zero_density_counterexample:
  "validate_optional (optional (nonneg (vq_default env0))) (Some (Finite 0)) = Inr (Some (Finite 0)) \<and>
   ion_sound_speed env0 (Finite (5 * 10 ^ 6)) (Finite 0) None None (PyInt 1) (PyInt 3) ''p+'' None =
     ([], Inr (Scalar (Finite (sqrt (138064852 / 10 ^ 31 * (5 * 10 ^ 6) / (1672621898 / 10 ^ 36)))))) \<and>
   ion_sound_speed env0 (Finite (5 * 10 ^ 6)) (Finite 0) (Some (Finite 0)) (Some (Finite 0))
       (PyInt 1) (PyInt 3) ''p+'' None = ([], Inr (Scalar NaN)) \<and>
   ion_sound_speed env0 (Finite (5 * 10 ^ 6)) (Finite 0) None None (PyInt 1) (PyInt 3) ''p+'' None \<noteq>
     ion_sound_speed env0 (Finite (5 * 10 ^ 6)) (Finite 0) (Some (Finite 0)) (Some (Finite 0))
       (PyInt 1) (PyInt 3) ''p+'' None"
proof -
  have d: "Debye_length env0 (Finite (5 * 10 ^ 6)) (Finite 0) = ([], Inr PInf)"
    by (simp add: Debye_length_def Debye_length_body_def validate_nonneg_Finite f_sq_def
        env0_def validate_quantity_def lift_def ok_def)
  have k: "dispersion env0 (Finite (5 * 10 ^ 6)) (Some (Finite 0)) (Some (Finite 0)) = ([], Inr NaN)"
    using d by (simp add: dispersion_def f_sq_def scale_inf_def ok_def)
  have "ion_sound_speed_validated env0 (Finite (5 * 10 ^ 6)) (Finite 0) (Some (Finite 0))
      (Some (Finite 0)) (PyInt 1) (PyInt 3) ''p+'' None = ([], Inr (Scalar NaN))"
    using k
    by (simp add: ion_sound_speed_validated_def ion_sound_speed_body_def validate_nonneg_Finite
        validate_optional_Finite grab_charge_def check_gamma_def V_S_expr_def validate_array_def
        env0_def ok_def lift_def)
  then have b: "ion_sound_speed env0 (Finite (5 * 10 ^ 6)) (Finite 0) (Some (Finite 0))
      (Some (Finite 0)) (PyInt 1) (PyInt 3) ''p+'' None = ([], Inr (Scalar NaN))"
    by (simp add: ion_sound_speed_def check_relativistic_def ok_def)
  show ?thesis
    using b ion_sound_speed_env0_value by (simp add: validate_optional_Finite)
qed

lemma f_mul_NaN_right [simp]: "f_mul a NaN = NaN"
  by (cases a) simp_all

lemma f_div_NaN_right [simp]: "f_div a NaN = NaN"
  by (cases a) simp_all

lemma V_S_expr_NaN: "V_S_expr E ge Z T_e gi T_i m_i NaN = Inr v \<Longrightarrow> v = NaN"
  by (cases "as_float ge"; cases "as_float Z"; cases "as_float gi") (auto simp: V_S_expr_def)

lemma Debye_length_success:
  assumes "Debye_length E T_e x = (ws, Inr l)"
  shows "validate_quantity (nonneg (vq_default E)) x = Inr x"
    and "validate_quantity (nonneg (vq_default E)) T_e = Inr T_e"
    and "ws = []"
proof -
  from assms obtain T' x' where T': "validate_quantity (nonneg (vq_default E)) T_e = Inr T'"
    and x': "validate_quantity (nonneg (vq_default E)) x = Inr x'"
    by (cases "validate_quantity (nonneg (vq_default E)) T_e";
        cases "validate_quantity (nonneg (vq_default E)) x")
      (simp_all add: Debye_length_def)
  then show "validate_quantity (nonneg (vq_default E)) x = Inr x"
    and "validate_quantity (nonneg (vq_default E)) T_e = Inr T_e"
    by (auto dest: validate_quantity_Inr)
  from assms T' x' show "ws = []"
    by (simp add: Debye_length_def Debye_length_body_def lift_def prod_eq_iff)
qed

lemma dispersion_k0_finite:
  assumes "Debye_length E T_e x = (ws, Inr (Finite l))"
  shows "dispersion E T_e (Some x) (Some (Finite 0)) = ([], Inr (Finite 0))"
  using assms Debye_length_success(3) [OF assms]
  by (simp add: dispersion_def bind_r_Inr f_sq_def ok_def)

lemma dispersion_k0_nonfinite:
  assumes "Debye_length E T_e x = (ws, Inr l)" and "\<not> isfinite l"
  shows "dispersion E T_e (Some x) (Some (Finite 0)) = ([], Inr NaN)"
  using assms Debye_length_success(3) [OF assms(1)]
  by (cases l) (simp_all add: dispersion_def bind_r_Inr f_sq_def scale_inf_def ok_def)

lemma validate_optional_zero:
  "validate_optional (optional (nonneg s)) (Some (Finite 0)) = Inr (Some (Finite 0))"
  by (simp add: validate_optional_Finite)

lemma ion_sound_speed_k0_finite:
  assumes D: "Debye_length E T_e x = (ws, Inr (Finite l))"
  shows "ion_sound_speed E T_e T_i (Some x) (Some (Finite 0)) ge gi ion z =
    ion_sound_speed E T_e T_i None None ge gi ion z"
proof -
  note x = Debye_length_success(1) [OF D] and T = Debye_length_success(2) [OF D]
  have body: "ion_sound_speed_body E T_e t (Some x) (Some (Finite 0)) ge gi ion z =
      ion_sound_speed_body E T_e t None None ge gi ion z" for t
    by (simp add: ion_sound_speed_body_def dispersion_k0_finite [OF D])
  have "ion_sound_speed_validated E T_e T_i (Some x) (Some (Finite 0)) ge gi ion z =
      ion_sound_speed_validated E T_e T_i None None ge gi ion z"
    by (simp add: ion_sound_speed_validated_def T validate_optional_Some [OF x]
        validate_optional_zero body)
  then show ?thesis
    by (simp add: ion_sound_speed_def)
qed

lemma ion_sound_speed_body_NaN:
  assumes d: "dispersion E T_e n k = ([], Inr NaN)"
    and r: "ion_sound_speed_body E T_e T_i n k ge gi ion z = (ws, Inr V)"
  shows "V = Scalar NaN"
proof -
  from r obtain m_i Z klD2 ws1 ws2 where "dispersion E T_e n k = (ws1, Inr klD2)"
    and V: "(case V_S_expr E ge Z T_e gi T_i m_i klD2 of
         Inl _ \<Rightarrow> raise (ValueError ''Unable to find ion sound speed.'')
       | Inr V_S \<Rightarrow> ok (Scalar V_S)) = (ws2, Inr V)"
    unfolding ion_sound_speed_body_def by (elim bind_r_success) blast
  with d have "klD2 = NaN"
    by simp
  with V show ?thesis
    by (cases "V_S_expr E ge Z T_e gi T_i m_i NaN")
      (auto simp: raise_def ok_def dest: V_S_expr_NaN)
qed

lemma validate_optional_Inr:
  "validate_optional s (Some v) = Inr y \<Longrightarrow> y = Some v"
  by (cases "validate_quantity s v")
    (auto simp: validate_optional_def dest: validate_quantity_Inr)

lemma ion_sound_speed_k0_nonfinite:
  assumes D: "Debye_length E T_e x = (ws, Inr l)" and l: "\<not> isfinite l"
    and r: "ion_sound_speed E T_e T_i (Some x) (Some (Finite 0)) ge gi ion z = (ws', Inr V)"
  shows "V = Scalar NaN"
proof -
  note d = dispersion_k0_nonfinite [OF D l]
  from r obtain ws1 where "ion_sound_speed_validated E T_e T_i (Some x) (Some (Finite 0)) ge gi ion z =
      (ws1, Inr V)"
    unfolding ion_sound_speed_def by (rule check_relativistic_success)
  then obtain T_e' T_i' n' k' V' ws2 where T_e': "validate_quantity (nonneg (vq_default E)) T_e = Inr T_e'"
    and n': "validate_optional (optional (nonneg (vq_default E))) (Some x) = Inr n'"
    and k': "validate_optional (optional (nonneg (vq_default E))) (Some (Finite 0)) = Inr k'"
    and body: "ion_sound_speed_body E T_e' T_i' n' k' ge gi ion z = (ws2, Inr V')"
    and V': "validate_array (vq_default E) V' = Inr V"
    unfolding ion_sound_speed_validated_def
    by (elim bind_r_success) (auto dest!: lift_success)
  from T_e' n' k' have "T_e' = T_e" "n' = Some x" "k' = Some (Finite 0)"
    by (auto dest: validate_quantity_Inr validate_optional_Inr)
  with body d have "V' = Scalar NaN"
    by (auto dest: ion_sound_speed_body_NaN)
  with V' show ?thesis
    by (auto dest: validate_array_Inr)
qed

text \<open>
  Claim C4, amended. Whenever \<^verbatim>\<open>Debye_length(T_e, x)\<close> returns a finite length,
  the density \<open>x\<close> is valid and the call with \<^verbatim>\<open>n_e = x\<close> and \<^verbatim>\<open>k = 0\<close>
  equals the call with neither: both use the dispersion term zero. Whenever it returns
  a length that is not finite, the dispersion term is NaN, and so is every value that
  the call with \<^verbatim>\<open>n_e = x\<close> and \<^verbatim>\<open>k = 0\<close> returns. The condition is on the
  length that the code computes, not on \<open>x\<close>: it fails for the density zero, for an
  infinite electron temperature, and in double precision for every density so small
  that the product \<^verbatim>\<open>n_e * e ** 2\<close> underflows to zero; it holds for the density
  \<open>+inf\<close> at a finite temperature. With exactly one of the two given (and valid), the
  dispersion term is zero as well: the call raises or returns the same as with
  neither, and when it returns, the warning of the non-dispersive limit precedes the
  warnings of the call with neither.
\<close>

theorem ion_sound_speed_dispersion_fallback:
  "(\<forall>x ws l. Debye_length E T_e x = (ws, Inr (Finite l)) \<longrightarrow>
      validate_quantity (nonneg (vq_default E)) x = Inr x \<and>
      dispersion E T_e (Some x) (Some (Finite 0)) = dispersion E T_e None None \<and>
      ion_sound_speed E T_e T_i (Some x) (Some (Finite 0)) ge gi ion z =
        ion_sound_speed E T_e T_i None None ge gi ion z) \<and>
   (\<forall>x ws l. Debye_length E T_e x = (ws, Inr l) \<longrightarrow> \<not> isfinite l \<longrightarrow>
      dispersion E T_e (Some x) (Some (Finite 0)) = ([], Inr NaN) \<and>
      (\<forall>ws' V. ion_sound_speed E T_e T_i (Some x) (Some (Finite 0)) ge gi ion z = (ws', Inr V) \<longrightarrow>
         V = Scalar NaN)) \<and>
   dispersion E T_e None None = ([], Inr (Finite 0)) \<and>
   (\<forall>v. validate_quantity (nonneg (vq_default E)) v = Inr v \<longrightarrow>
      snd (dispersion E T_e (Some v) None) = Inr (Finite 0) \<and>
      snd (dispersion E T_e None (Some v)) = Inr (Finite 0) \<and>
      snd (ion_sound_speed E T_e T_i (Some v) None ge gi ion z) =
        snd (ion_sound_speed E T_e T_i None None ge gi ion z) \<and>
      snd (ion_sound_speed E T_e T_i None (Some v) ge gi ion z) =
        snd (ion_sound_speed E T_e T_i None None ge gi ion z) \<and>
      (\<forall>V. snd (ion_sound_speed E T_e T_i None None ge gi ion z) = Inr V \<longrightarrow>
        fst (ion_sound_speed E T_e T_i (Some v) None ge gi ion z) =
          PhysicsWarning ''The non-dispersive limit has been assumed for this calculation. To prevent this, values must be specified for both n_e and k.''
            # fst (ion_sound_speed E T_e T_i None None ge gi ion z) \<and>
        fst (ion_sound_speed E T_e T_i None (Some v) ge gi ion z) =
          PhysicsWarning ''The non-dispersive limit has been assumed for this calculation. To prevent this, values must be specified for both n_e and k.''
            # fst (ion_sound_speed E T_e T_i None None ge gi ion z)))"
proof (intro conjI allI impI)
  fix x ws l
  assume D: "Debye_length E T_e x = (ws, Inr (Finite l))"
  then show "validate_quantity (nonneg (vq_default E)) x = Inr x"
    by (rule Debye_length_success)
  from D show "dispersion E T_e (Some x) (Some (Finite 0)) = dispersion E T_e None None"
    by (simp add: dispersion_k0_finite)
  from D show "ion_sound_speed E T_e T_i (Some x) (Some (Finite 0)) ge gi ion z =
      ion_sound_speed E T_e T_i None None ge gi ion z"
    by (rule ion_sound_speed_k0_finite)
next
  fix x ws l
  assume D: "Debye_length E T_e x = (ws, Inr l)" and l: "\<not> isfinite l"
  then show "dispersion E T_e (Some x) (Some (Finite 0)) = ([], Inr NaN)"
    by (rule dispersion_k0_nonfinite)
  fix ws' V
  assume "ion_sound_speed E T_e T_i (Some x) (Some (Finite 0)) ge gi ion z = (ws', Inr V)"
  with D l show "V = Scalar NaN"
    by (rule ion_sound_speed_k0_nonfinite)
next
  show "dispersion E T_e None None = ([], Inr (Finite 0))"
    by simp
next
  fix v
  show "snd (dispersion E T_e (Some v) None) = Inr (Finite 0)"
    using warned_dispersion_n [of E T_e v] by (simp add: warned_def)
  show "snd (dispersion E T_e None (Some v)) = Inr (Finite 0)"
    using warned_dispersion_k [of E T_e v] by (simp add: warned_def)
  assume v: "validate_quantity (nonneg (vq_default E)) v = Inr v"
  note n = warned_ion_sound_speed [OF warned_dispersion_n validate_optional_Some [OF v]
      validate_optional_None, of T_e T_i ge gi ion z]
  note k = warned_ion_sound_speed [OF warned_dispersion_k validate_optional_None
      validate_optional_Some [OF v], of T_e T_i ge gi ion z]
  show "snd (ion_sound_speed E T_e T_i (Some v) None ge gi ion z) =
      snd (ion_sound_speed E T_e T_i None None ge gi ion z)"
    using n by (simp add: warned_def)
  show "snd (ion_sound_speed E T_e T_i None (Some v) ge gi ion z) =
      snd (ion_sound_speed E T_e T_i None None ge gi ion z)"
    using k by (simp add: warned_def)
  fix V assume "snd (ion_sound_speed E T_e T_i None None ge gi ion z) = Inr V"
  then show "fst (ion_sound_speed E T_e T_i (Some v) None ge gi ion z) =
            PhysicsWarning ''The non-dispersive limit has been assumed for this calculation. To prevent this, values must be specified for both n_e and k.''
              # fst (ion_sound_speed E T_e T_i None None ge gi ion z)"
    and "fst (ion_sound_speed E T_e T_i None (Some v) ge gi ion z) =
            PhysicsWarning ''The non-dispersive limit has been assumed for this calculation. To prevent this, values must be specified for both n_e and k.''
              # fst (ion_sound_speed E T_e T_i None None ge gi ion z)"
    using n k by (auto simp: warned_def)
qed

theorem ion_sound_speed_dispersion_fallback_witness:
  "Debye_length env0 (Finite (5 * 10 ^ 6)) (Finite (5 * 10 ^ 15)) =
     ([], Inr (Finite (sqrt (8854187817 / 10 ^ 21 * (138064852 / 10 ^ 31) * (5 * 10 ^ 6) /
        (5 * 10 ^ 15 * (16021766208 / 10 ^ 29 * (16021766208 / 10 ^ 29))))))) \<and>
   ion_sound_speed env0 (Finite (5 * 10 ^ 6)) (Finite 0) (Some (Finite (5 * 10 ^ 15))) (Some (Finite 0))
       (PyInt 1) (PyInt 3) ''p+'' None =
     ([], Inr (Scalar (Finite (sqrt (138064852 / 10 ^ 31 * (5 * 10 ^ 6) / (1672621898 / 10 ^ 36)))))) \<and>
   Debye_length env0 (Finite (5 * 10 ^ 6)) (Finite 0) = ([], Inr PInf) \<and> \<not> isfinite PInf \<and>
   dispersion env0 (Finite (5 * 10 ^ 6)) (Some (Finite 0)) (Some (Finite 0)) = ([], Inr NaN) \<and>
   validate_quantity (nonneg (vq_default env0)) (Finite (5 * 10 ^ 15)) = Inr (Finite (5 * 10 ^ 15)) \<and>
   ion_sound_speed env0 (Finite (5 * 10 ^ 6)) (Finite 0) (Some (Finite (5 * 10 ^ 15))) None
       (PyInt 1) (PyInt 3) ''p+'' None =
     ([PhysicsWarning ''The non-dispersive limit has been assumed for this calculation. To prevent this, values must be specified for both n_e and k.''],
      Inr (Scalar (Finite (sqrt (138064852 / 10 ^ 31 * (5 * 10 ^ 6) / (1672621898 / 10 ^ 36))))))"
proof -
  let ?L = "sqrt (8854187817 / 10 ^ 21 * (138064852 / 10 ^ 31) * (5 * 10 ^ 6) /
        (5 * 10 ^ 15 * (16021766208 / 10 ^ 29 * (16021766208 / 10 ^ 29))))"
  have D: "Debye_length env0 (Finite (5 * 10 ^ 6)) (Finite (5 * 10 ^ 15)) = ([], Inr (Finite ?L))"
    by (simp add: Debye_length_def Debye_length_body_def validate_nonneg_Finite f_sq_def
        env0_def validate_quantity_def lift_def ok_def)
  have D0: "Debye_length env0 (Finite (5 * 10 ^ 6)) (Finite 0) = ([], Inr PInf)"
    by (simp add: Debye_length_def Debye_length_body_def validate_nonneg_Finite f_sq_def
        env0_def validate_quantity_def lift_def ok_def)
  have v: "validate_quantity (nonneg (vq_default env0)) (Finite (5 * 10 ^ 15)) = Inr (Finite (5 * 10 ^ 15))"
    by (simp add: validate_nonneg_Finite)
  note T = ion_sound_speed_dispersion_fallback
      [of env0 "Finite (5 * 10 ^ 6)" "Finite 0" "PyInt 1" "PyInt 3" "''p+''" None]
  note V = ion_sound_speed_env0_value
  from T D have "ion_sound_speed env0 (Finite (5 * 10 ^ 6)) (Finite 0) (Some (Finite (5 * 10 ^ 15)))
      (Some (Finite 0)) (PyInt 1) (PyInt 3) ''p+'' None =
     ion_sound_speed env0 (Finite (5 * 10 ^ 6)) (Finite 0) None None (PyInt 1) (PyInt 3) ''p+'' None"
    by blast
  then have a: "ion_sound_speed env0 (Finite (5 * 10 ^ 6)) (Finite 0) (Some (Finite (5 * 10 ^ 15)))
      (Some (Finite 0)) (PyInt 1) (PyInt 3) ''p+'' None =
     ([], Inr (Scalar (Finite (sqrt (138064852 / 10 ^ 31 * (5 * 10 ^ 6) / (1672621898 / 10 ^ 36))))))"
    by (simp only: V)
  have nf: "\<not> isfinite PInf"
    by simp
  from T D0 nf have n: "dispersion env0 (Finite (5 * 10 ^ 6)) (Some (Finite 0)) (Some (Finite 0)) =
      ([], Inr NaN)"
    by blast
  from T v have "snd (ion_sound_speed env0 (Finite (5 * 10 ^ 6)) (Finite 0) (Some (Finite (5 * 10 ^ 15)))
        None (PyInt 1) (PyInt 3) ''p+'' None) =
      snd (ion_sound_speed env0 (Finite (5 * 10 ^ 6)) (Finite 0) None None (PyInt 1) (PyInt 3) ''p+'' None)"
    and "\<forall>V. snd (ion_sound_speed env0 (Finite (5 * 10 ^ 6)) (Finite 0) None None (PyInt 1) (PyInt 3) ''p+'' None) = Inr V \<longrightarrow>
      fst (ion_sound_speed env0 (Finite (5 * 10 ^ 6)) (Finite 0) (Some (Finite (5 * 10 ^ 15)))
        None (PyInt 1) (PyInt 3) ''p+'' None) =
      PhysicsWarning ''The non-dispersive limit has been assumed for this calculation. To prevent this, values must be specified for both n_e and k.''
        # fst (ion_sound_speed env0 (Finite (5 * 10 ^ 6)) (Finite 0) None None (PyInt 1) (PyInt 3) ''p+'' None)"
    by blast+
  then have b: "ion_sound_speed env0 (Finite (5 * 10 ^ 6)) (Finite 0) (Some (Finite (5 * 10 ^ 15))) None
       (PyInt 1) (PyInt 3) ''p+'' None =
     ([PhysicsWarning ''The non-dispersive limit has been assumed for this calculation. To prevent this, values must be specified for both n_e and k.''],
      Inr (Scalar (Finite (sqrt (138064852 / 10 ^ 31 * (5 * 10 ^ 6) / (1672621898 / 10 ^ 36))))))"
    unfolding V by (simp add: prod_eq_iff)
  from D a D0 nf n v b show ?thesis by blast
qed

section \<open>Relativistic guard on the speed formulas\<close>

lemma validate_array_env0 [simp]: "validate_array (vq_default env0) x = Inr x"
  by (simp add: validate_array_def env0_def)

lemma validate_array_nonneg_Scalar:
  "validate_array (nonneg s) (Scalar (Finite t)) =
     (if t < 0 then Inl NegativeValueError else Inr (Scalar (Finite t)))"
  by (simp add: validate_array_def nonneg_def)

lemma thermal_speed_validated_env0_electron:
  assumes "0 \<le> t"
  shows "thermal_speed_validated env0 (Scalar (Finite t)) ''e-'' ''most_probable'' NaN =
    ([], Inr (Scalar (Finite (sqrt (2 * (138064852 / 10 ^ 31) * t / (910938356 / 10 ^ 39))))))"
proof -
  have "Particle env0 ''e-'' = Inr ''e-''" "particle_mass env0 ''e-'' = Inr (Finite (910938356 / 10 ^ 39))"
    "k_B env0 = 138064852 / 10 ^ 31"
    by (simp_all add: env0_def)
  then show ?thesis
    using assms
    by (simp add: thermal_speed_validated_def thermal_speed_body_def thermal_speed_formula_def
        validate_array_nonneg_Scalar validate_mass_nonfinite ok_def lift_def not_less)
qed

lemma sqrt_16 [simp]: "sqrt 16 = 4"
proof -
  have "sqrt 16 = sqrt (4\<^sup>2)" by simp
  then show ?thesis by (simp only: real_sqrt_abs)
qed

lemma kappa_coeff: "f_sqrt (f_div (f_sub (Finite (8 / 5)) (Finite (3 / 2))) (Finite (8 / 5))) = Finite (1 / 4)"
  by (simp add: f_sub_def real_sqrt_divide)


lemma f_lt_not_le: "f_lt b x \<Longrightarrow> \<not> f_le x b"
  by (cases b; cases x) auto

lemma f_lt_trans_Finite: "f_lt b (Finite x) \<Longrightarrow> x \<le> y \<Longrightarrow> f_lt b (Finite y)"
  by (cases b) auto

lemma check_relativistic_cases:
  assumes c: "0 < c_si E" and b: "max_magnitude v = Some b"
  shows "(f_le (Finite (c_si E)) b \<longrightarrow>
            check_relativistic E (ws, Inr v) = (ws, Inl RelativityError)) \<and>
         (f_le (Finite (0.05 * c_si E)) b \<and> f_lt b (Finite (c_si E)) \<longrightarrow>
            check_relativistic E (ws, Inr v) = (ws @ [RelativityWarning], Inr v)) \<and>
         (f_lt b (Finite (0.05 * c_si E)) \<longrightarrow>
            check_relativistic E (ws, Inr v) = (ws, Inr v))"
proof (intro conjI impI)
  assume "f_le (Finite (c_si E)) b"
  then show "check_relativistic E (ws, Inr v) = (ws, Inl RelativityError)"
    using b by (simp add: check_relativistic_def bind_r_Inr raise_def)
next
  assume "f_le (Finite (0.05 * c_si E)) b \<and> f_lt b (Finite (c_si E))"
  then show "check_relativistic E (ws, Inr v) = (ws @ [RelativityWarning], Inr v)"
    using b by (simp add: check_relativistic_def bind_r_Inr warn_def ok_def f_lt_not_le)
next
  assume lt: "f_lt b (Finite (0.05 * c_si E))"
  have "f_lt b (Finite (c_si E))"
    by (rule f_lt_trans_Finite [OF lt]) (use c in simp)
  then show "check_relativistic E (ws, Inr v) = (ws, Inr v)"
    using b lt by (simp add: check_relativistic_def bind_r_Inr ok_def f_lt_not_le)
qed

lemma no_rw_bind:
  "RelativityWarning \<notin> set (fst m) \<Longrightarrow> (\<And>x. RelativityWarning \<notin> set (fst (f x))) \<Longrightarrow>
   RelativityWarning \<notin> set (fst (bind_r m f))"
proof (cases m)
  case (Pair ws r)
  assume m: "RelativityWarning \<notin> set (fst m)" and f: "\<And>x. RelativityWarning \<notin> set (fst (f x))"
  show ?thesis
  proof (cases r)
    case (Inl ex)
    then show ?thesis using Pair m by simp
  next
    case (Inr x)
    then show ?thesis using Pair m f [of x] by (simp add: bind_r_Inr)
  qed
qed

lemma fst_ok [simp]: "fst (ok x) = []"
  by (simp add: ok_def)

lemma fst_raise [simp]: "fst (raise ex) = []"
  by (simp add: raise_def)

lemma no_rw_thermal_speed_validated:
  "RelativityWarning \<notin> set (fst (thermal_speed_validated E T p meth mass))"
  unfolding thermal_speed_validated_def thermal_speed_body_def
  by (intro no_rw_bind) (simp_all add: thermal_speed_formula_def)

lemma no_rw_mass_density: "RelativityWarning \<notin> set (fst (mass_density E d p z))"
  unfolding mass_density_def mass_density_body_def
  by (intro no_rw_bind; simp split: density.splits option.splits;
      intro conjI impI allI no_rw_bind; simp)

lemma no_rw_Alfven_speed_validated:
  "RelativityWarning \<notin> set (fst (Alfven_speed_validated E B d ion z))"
  unfolding Alfven_speed_validated_def Alfven_speed_body_def
  by (intro no_rw_bind no_rw_mass_density) simp_all

lemma no_rw_Debye_length: "RelativityWarning \<notin> set (fst (Debye_length E T_e n_e))"
  unfolding Debye_length_def Debye_length_body_def
  by (intro no_rw_bind) simp_all

lemma no_rw_dispersion: "RelativityWarning \<notin> set (fst (dispersion E T_e n_e k))"
  unfolding dispersion_def
  by (simp split: option.splits; intro conjI impI allI no_rw_bind no_rw_Debye_length;
      simp add: warn_def)

lemma no_rw_ion_sound_speed_validated:
  "RelativityWarning \<notin> set (fst (ion_sound_speed_validated E T_e T_i n_e k ge gi ion z))"
  unfolding ion_sound_speed_validated_def ion_sound_speed_body_def
  by (intro no_rw_bind no_rw_dispersion) (simp_all split: sum.splits)


lemma check_relativistic_Scalar:
  assumes "0 \<le> r"
  shows "check_relativistic E (ws, Inr (Scalar (Finite r))) =
    (if c_si E \<le> r then (ws, Inl RelativityError)
     else if 0.05 * c_si E \<le> r then (ws @ [RelativityWarning], Inr (Scalar (Finite r)))
     else (ws, Inr (Scalar (Finite r))))"
  using assms by (simp add: check_relativistic_def bind_r_Inr raise_def warn_def ok_def)

lemma le_sqrt_iff_sq: "0 \<le> c \<Longrightarrow> (c \<le> sqrt x) = (c\<^sup>2 \<le> x)"
  by (metis abs_of_nonneg real_sqrt_abs real_sqrt_le_iff)

lemma check_relativistic_sqrt:
  assumes "0 < c_si E" "0 \<le> x"
  shows "check_relativistic E (ws, Inr (Scalar (Finite (sqrt x)))) =
    (if (c_si E)\<^sup>2 \<le> x then (ws, Inl RelativityError)
     else if (0.05 * c_si E)\<^sup>2 \<le> x then (ws @ [RelativityWarning], Inr (Scalar (Finite (sqrt x))))
     else (ws, Inr (Scalar (Finite (sqrt x)))))"
proof -
  have 1: "(c_si E \<le> sqrt x) = ((c_si E)\<^sup>2 \<le> x)"
    using assms by (intro le_sqrt_iff_sq) simp
  have 2: "(0.05 * c_si E \<le> sqrt x) = ((0.05 * c_si E)\<^sup>2 \<le> x)"
    using assms by (intro le_sqrt_iff_sq) simp
  have "0 \<le> sqrt x"
    using assms by simp
  from check_relativistic_Scalar [OF this, of E ws] show ?thesis
    by (simp only: 1 2)
qed

lemma thermal_speed_env0_electron:
  assumes "0 \<le> t"
  shows "thermal_speed env0 (Scalar (Finite t)) ''e-'' ''most_probable'' NaN =
    (if (c_si env0)\<^sup>2 \<le> 2 * (138064852 / 10 ^ 31) * t / (910938356 / 10 ^ 39)
       then ([], Inl RelativityError)
     else if (0.05 * c_si env0)\<^sup>2 \<le> 2 * (138064852 / 10 ^ 31) * t / (910938356 / 10 ^ 39)
       then ([] @ [RelativityWarning],
             Inr (Scalar (Finite (sqrt (2 * (138064852 / 10 ^ 31) * t / (910938356 / 10 ^ 39))))))
     else ([], Inr (Scalar (Finite (sqrt (2 * (138064852 / 10 ^ 31) * t / (910938356 / 10 ^ 39)))))))"
  unfolding thermal_speed_def thermal_speed_validated_env0_electron [OF assms]
  by (rule check_relativistic_sqrt) (use assms in \<open>simp_all add: env0_def\<close>)

lemma thermal_speed_env0_warm:
  "thermal_speed env0 (Scalar (Finite (10 ^ 8))) ''e-'' ''most_probable'' NaN =
     ([RelativityWarning],
      Inr (Scalar (Finite (sqrt (2 * (138064852 / 10 ^ 31) * 10 ^ 8 / (910938356 / 10 ^ 39))))))"
  using thermal_speed_env0_electron [of "10 ^ 8"] by (simp add: env0_def power2_eq_square)

lemma thermal_speed_env0_hot:
  "thermal_speed env0 (Scalar (Finite (10 ^ 10))) ''e-'' ''most_probable'' NaN =
     ([], Inl RelativityError)"
  using thermal_speed_env0_electron [of "10 ^ 10"] by (simp add: env0_def power2_eq_square)

lemma kappa_thermal_speed_env0:
  assumes "0 \<le> t"
  shows "kappa_thermal_speed env0 (Scalar (Finite t)) (Finite (8 / 5)) ''e-'' ''most_probable'' =
    check_relativistic env0
      (bind_r (thermal_speed env0 (Scalar (Finite t)) ''e-'' ''most_probable'' NaN)
         (\<lambda>vTh. ok (elementwise (\<lambda>v. f_mul v (Finite (1 / 4))) vTh)))"
proof -
  have "bind_r m (\<lambda>V. lift (validate_array (vq_default env0) V)) = m" for m :: "float64 nd result"
    by (cases m; cases "snd m") (simp_all add: bind_r_Inr lift_def)
  then show ?thesis
    using assms
    by (simp add: kappa_thermal_speed_def kappa_thermal_speed_validated_def
        kappa_thermal_speed_body_def validate_array_nonneg_Scalar kappa_coeff not_less)
qed

lemma fold_f_max_Finite: "fold f_max (map Finite rs) (Finite a) = Finite (fold max rs a)"
  by (induction rs arbitrary: a) (simp_all add: max_def)

lemma max_magnitude_Finite:
  "max_magnitude (Array (map Finite (r # rs))) = Some (Finite (Max (set (map abs (r # rs)))))"
proof -
  have "map f_abs (map Finite rs) = map Finite (map abs rs)" for rs
    by (induction rs) simp_all
  then have "max_magnitude (Array (map Finite (r # rs))) = Some (Finite (fold max (map abs rs) \<bar>r\<bar>))"
    by (simp add: max_magnitude_def fold_f_max_Finite del: map_map)
  also have "fold max (map abs rs) \<bar>r\<bar> = Max (set (map abs (r # rs)))"
    by (simp only: list.map Max.set_eq_fold)
  finally show ?thesis .
qed

lemma fst_bind_r_lift [simp]:
  "fst (bind_r m (\<lambda>x. lift (f x))) = fst m"
  by (cases m; cases "snd m") (simp_all add: bind_r_Inr lift_def)

text \<open>
  Claim C7, as stated, fails for \<^verbatim>\<open>kappa_thermal_speed\<close>: its body calls
  \<^verbatim>\<open>thermal_speed\<close>, which carries the guard itself, so the unscaled Maxwellian
  speed is tested before the scaled result is. For electrons at \<open>10^8\<close> K and
  \<open>kappa = 1.6\<close> the returned speed is below \<open>0.05 c\<close> and a RelativityWarning is
  emitted all the same; at \<open>10^10\<close> K the scaled speed lies between \<open>0.05 c\<close> and
  \<open>c\<close> and the call raises RelativityError.
\<close>

theorem kappa_thermal_speed_double_guard_counterexample:
  "kappa_thermal_speed env0 (Scalar (Finite (10 ^ 8))) (Finite (8 / 5)) ''e-'' ''most_probable'' =
     ([RelativityWarning],
      Inr (Scalar (Finite (sqrt (2 * (138064852 / 10 ^ 31) * 10 ^ 8 / (910938356 / 10 ^ 39)) * (1 / 4))))) \<and>
   f_lt (f_abs (Finite (sqrt (2 * (138064852 / 10 ^ 31) * 10 ^ 8 / (910938356 / 10 ^ 39)) * (1 / 4))))
     (Finite (0.05 * c_si env0)) \<and>
   kappa_thermal_speed env0 (Scalar (Finite (10 ^ 10))) (Finite (8 / 5)) ''e-'' ''most_probable'' =
     ([], Inl RelativityError) \<and>
   f_mul (f_sqrt (f_div (f_mul (Finite (2 * k_B env0)) (Finite (10 ^ 10))) (Finite (910938356 / 10 ^ 39))))
       (f_sqrt (f_div (f_sub (Finite (8 / 5)) (Finite (3 / 2))) (Finite (8 / 5)))) =
     Finite (sqrt (2 * (138064852 / 10 ^ 31) * 10 ^ 10 / (910938356 / 10 ^ 39)) * (1 / 4)) \<and>
   f_le (Finite (0.05 * c_si env0))
     (f_abs (Finite (sqrt (2 * (138064852 / 10 ^ 31) * 10 ^ 10 / (910938356 / 10 ^ 39)) * (1 / 4)))) \<and>
   f_lt (f_abs (Finite (sqrt (2 * (138064852 / 10 ^ 31) * 10 ^ 10 / (910938356 / 10 ^ 39)) * (1 / 4))))
     (Finite (c_si env0))"
proof -
  let ?X = "2 * (138064852 / 10 ^ 31) * 10 ^ 8 / (910938356 / 10 ^ 39) :: real"
  let ?Y = "2 * (138064852 / 10 ^ 31) * 10 ^ 10 / (910938356 / 10 ^ 39) :: real"
  have c: "c_si env0 = 299792458" and k: "k_B env0 = 138064852 / 10 ^ 31"
    by (simp_all add: env0_def)
  have X: "sqrt ?X < 0.2 * 299792458"
    by (rule real_less_lsqrt) (simp_all add: power2_eq_square)
  have Ylo: "0.2 * 299792458 \<le> sqrt ?Y"
    by (rule real_le_rsqrt) (simp add: power2_eq_square)
  have Yhi: "sqrt ?Y < 4 * 299792458"
    by (rule real_less_lsqrt) (simp_all add: power2_eq_square)
  have X0: "0 \<le> sqrt ?X * (1 / 4)"
    by simp
  have a: "kappa_thermal_speed env0 (Scalar (Finite (10 ^ 8))) (Finite (8 / 5)) ''e-'' ''most_probable'' =
     ([RelativityWarning], Inr (Scalar (Finite (sqrt ?X * (1 / 4)))))"
    using X
    by (simp add: kappa_thermal_speed_env0 thermal_speed_env0_warm [simplified] bind_r_Inr ok_def
        check_relativistic_Scalar c)
  have b: "kappa_thermal_speed env0 (Scalar (Finite (10 ^ 10))) (Finite (8 / 5)) ''e-'' ''most_probable'' =
     ([], Inl RelativityError)"
    by (simp add: kappa_thermal_speed_env0 thermal_speed_env0_hot [simplified] check_relativistic_def)
  have d: "f_mul (f_sqrt (f_div (f_mul (Finite (2 * k_B env0)) (Finite (10 ^ 10))) (Finite (910938356 / 10 ^ 39))))
       (f_sqrt (f_div (f_sub (Finite (8 / 5)) (Finite (3 / 2))) (Finite (8 / 5)))) =
     Finite (sqrt ?Y * (1 / 4))"
    by (simp add: kappa_coeff k)
  show ?thesis
    using a b d X Ylo Yhi by (simp add: c)
qed

text \<open>
  Claim C7, amended. Each of \<^verbatim>\<open>thermal_speed\<close>, \<^verbatim>\<open>Alfven_speed\<close>,
  \<^verbatim>\<open>ion_sound_speed\<close> and \<^verbatim>\<open>kappa_thermal_speed\<close> applies the guard to the
  value \<open>v\<close> that its validated body returns: a maximum magnitude of at least \<open>c\<close>
  raises RelativityError; one of at least \<open>0.05 c\<close> and below \<open>c\<close> returns \<open>v\<close>
  unchanged after one more RelativityWarning; one below \<open>0.05 c\<close> returns \<open>v\<close>
  unchanged with no further warning. The bodies of the first three emit no
  RelativityWarning of their own, so for them the last case emits none at all. The
  maximum magnitude of an array of finite numbers is the largest absolute value of its
  elements. The body of \<^verbatim>\<open>kappa_thermal_speed\<close> carries the warnings of its inner
  \<^verbatim>\<open>thermal_speed\<close> call, and an exception of that call (its RelativityError
  included) is the outcome of \<^verbatim>\<open>kappa_thermal_speed\<close>.
\<close>

theorem relativistic_guard:
  assumes c: "0 < c_si E"
  shows
    "(\<forall>raw out. (raw, out) \<in>
         {(thermal_speed_validated E T p meth mass, thermal_speed E T p meth mass),
          (Alfven_speed_validated E B d ion z, Alfven_speed E B d ion z),
          (ion_sound_speed_validated E T_e T_i n_e k ge gi ion' z',
             ion_sound_speed E T_e T_i n_e k ge gi ion' z'),
          (kappa_thermal_speed_validated E T' kappa p' meth',
             kappa_thermal_speed E T' kappa p' meth')} \<longrightarrow>
        (\<forall>ws v b. raw = (ws, Inr v) \<longrightarrow> max_magnitude v = Some b \<longrightarrow>
           (f_le (Finite (c_si E)) b \<longrightarrow> out = (ws, Inl RelativityError)) \<and>
           (f_le (Finite (0.05 * c_si E)) b \<and> f_lt b (Finite (c_si E)) \<longrightarrow>
              out = (ws @ [RelativityWarning], Inr v)) \<and>
           (f_lt b (Finite (0.05 * c_si E)) \<longrightarrow> out = (ws, Inr v)))) \<and>
     (\<forall>raw \<in> {thermal_speed_validated E T p meth mass,
                Alfven_speed_validated E B d ion z,
                ion_sound_speed_validated E T_e T_i n_e k ge gi ion' z'}.
        RelativityWarning \<notin> set (fst raw)) \<and>
     (\<forall>r rs. max_magnitude (Array (map Finite (r # rs))) =
        Some (Finite (Max (set (map abs (r # rs)))))) \<and>
     (\<forall>T'' ws r. validate_array (nonneg (vq_default E)) T' = Inr T'' \<longrightarrow>
        \<not> f_le kappa (Finite (3 / 2)) \<longrightarrow>
        thermal_speed E T'' p' meth' NaN = (ws, r) \<longrightarrow>
        fst (kappa_thermal_speed_validated E T' kappa p' meth') = ws \<and>
        (\<forall>ex. r = Inl ex \<longrightarrow> kappa_thermal_speed E T' kappa p' meth' = (ws, Inl ex)))"
proof (intro conjI allI impI ballI)
  fix raw out ws v b
  assume "(raw, out) \<in>
         {(thermal_speed_validated E T p meth mass, thermal_speed E T p meth mass),
          (Alfven_speed_validated E B d ion z, Alfven_speed E B d ion z),
          (ion_sound_speed_validated E T_e T_i n_e k ge gi ion' z',
             ion_sound_speed E T_e T_i n_e k ge gi ion' z'),
          (kappa_thermal_speed_validated E T' kappa p' meth',
             kappa_thermal_speed E T' kappa p' meth')}"
  then have out: "out = check_relativistic E raw"
    by (auto simp: thermal_speed_def Alfven_speed_def ion_sound_speed_def kappa_thermal_speed_def)
  assume raw: "raw = (ws, Inr v)" and b: "max_magnitude v = Some b"
  note G = check_relativistic_cases [OF c b, of ws]
  {
    assume "f_le (Finite (c_si E)) b"
    then show "out = (ws, Inl RelativityError)"
      using G out raw by simp
  }
  {
    assume "f_le (Finite (0.05 * c_si E)) b \<and> f_lt b (Finite (c_si E))"
    then show "out = (ws @ [RelativityWarning], Inr v)"
      using G out raw by simp
  }
  {
    assume "f_lt b (Finite (0.05 * c_si E))"
    then show "out = (ws, Inr v)"
      using G out raw by simp
  }
next
  fix raw
  assume "raw \<in> {thermal_speed_validated E T p meth mass,
                Alfven_speed_validated E B d ion z,
                ion_sound_speed_validated E T_e T_i n_e k ge gi ion' z'}"
  then show "RelativityWarning \<notin> set (fst raw)"
    using no_rw_thermal_speed_validated no_rw_Alfven_speed_validated
      no_rw_ion_sound_speed_validated by blast
next
  fix r rs
  show "max_magnitude (Array (map Finite (r # rs))) = Some (Finite (Max (set (map abs (r # rs)))))"
    by (rule max_magnitude_Finite)
next
  fix T'' ws r
  assume T: "validate_array (nonneg (vq_default E)) T' = Inr T''"
    and kappa: "\<not> f_le kappa (Finite (3 / 2))"
    and th: "thermal_speed E T'' p' meth' NaN = (ws, r)"
  show w: "fst (kappa_thermal_speed_validated E T' kappa p' meth') = ws"
    using T kappa th
    by (cases r) (simp_all add: kappa_thermal_speed_validated_def kappa_thermal_speed_body_def
        bind_r_Inr ok_def)
  fix ex assume "r = Inl ex"
  then have "kappa_thermal_speed_validated E T' kappa p' meth' = (ws, Inl ex)"
    using T kappa th
    by (simp add: kappa_thermal_speed_validated_def kappa_thermal_speed_body_def)
  then show "kappa_thermal_speed E T' kappa p' meth' = (ws, Inl ex)"
    by (simp add: kappa_thermal_speed_def check_relativistic_def)
qed

theorem relativistic_guard_witness:
  "0 < c_si env0 \<and>
   thermal_speed env0 (Scalar (Finite (10 ^ 6))) ''e-'' ''most_probable'' NaN =
     ([], Inr (Scalar (Finite (sqrt (2 * (138064852 / 10 ^ 31) * 10 ^ 6 / (910938356 / 10 ^ 39)))))) \<and>
   thermal_speed env0 (Scalar (Finite (10 ^ 8))) ''e-'' ''most_probable'' NaN =
     ([RelativityWarning],
      Inr (Scalar (Finite (sqrt (2 * (138064852 / 10 ^ 31) * 10 ^ 8 / (910938356 / 10 ^ 39)))))) \<and>
   thermal_speed env0 (Scalar (Finite (10 ^ 10))) ''e-'' ''most_probable'' NaN =
     ([], Inl RelativityError) \<and>
   kappa_thermal_speed env0 (Scalar (Finite (10 ^ 10))) (Finite (8 / 5)) ''e-'' ''most_probable'' =
     ([], Inl RelativityError)"
proof -
  have c0: "0 < c_si env0" and c: "c_si env0 = 299792458"
    by (simp_all add: env0_def)
  have G: "(f_le (Finite (c_si env0)) (Finite (sqrt x)) \<longrightarrow>
             thermal_speed env0 (Scalar (Finite t)) ''e-'' ''most_probable'' NaN =
               ([], Inl RelativityError)) \<and>
           (f_le (Finite (0.05 * c_si env0)) (Finite (sqrt x)) \<and>
              f_lt (Finite (sqrt x)) (Finite (c_si env0)) \<longrightarrow>
             thermal_speed env0 (Scalar (Finite t)) ''e-'' ''most_probable'' NaN =
               ([] @ [RelativityWarning], Inr (Scalar (Finite (sqrt x))))) \<and>
           (f_lt (Finite (sqrt x)) (Finite (0.05 * c_si env0)) \<longrightarrow>
             thermal_speed env0 (Scalar (Finite t)) ''e-'' ''most_probable'' NaN =
               ([], Inr (Scalar (Finite (sqrt x)))))"
    if t: "0 \<le> t" and x: "x = 2 * (138064852 / 10 ^ 31) * t / (910938356 / 10 ^ 39)" for t x
  proof -
    have raw: "thermal_speed_validated env0 (Scalar (Finite t)) ''e-'' ''most_probable'' NaN =
        ([], Inr (Scalar (Finite (sqrt x))))"
      unfolding x by (rule thermal_speed_validated_env0_electron [OF t])
    have "0 \<le> x"
      using t x by simp
    then have b: "max_magnitude (Scalar (Finite (sqrt x))) = Some (Finite (sqrt x))"
      by simp
    from relativistic_guard [OF c0, of "Scalar (Finite t)" "''e-''" "''most_probable''" NaN
        "Finite 0" "MassDensity (Finite 0)" "[]" None "Finite 0" "Finite 0" None None
        PyObject PyObject "[]" None "Scalar (Finite 0)" "Finite 2" "[]" "[]"]
    have "\<forall>ws v b. thermal_speed_validated env0 (Scalar (Finite t)) ''e-'' ''most_probable'' NaN =
            (ws, Inr v) \<longrightarrow> max_magnitude v = Some b \<longrightarrow>
           (f_le (Finite (c_si env0)) b \<longrightarrow>
              thermal_speed env0 (Scalar (Finite t)) ''e-'' ''most_probable'' NaN =
                (ws, Inl RelativityError)) \<and>
           (f_le (Finite (0.05 * c_si env0)) b \<and> f_lt b (Finite (c_si env0)) \<longrightarrow>
              thermal_speed env0 (Scalar (Finite t)) ''e-'' ''most_probable'' NaN =
                (ws @ [RelativityWarning], Inr v)) \<and>
           (f_lt b (Finite (0.05 * c_si env0)) \<longrightarrow>
              thermal_speed env0 (Scalar (Finite t)) ''e-'' ''most_probable'' NaN = (ws, Inr v))"
      by blast
    from this raw b show ?thesis
      by blast
  qed
  let ?X6 = "2 * (138064852 / 10 ^ 31) * 10 ^ 6 / (910938356 / 10 ^ 39) :: real"
  let ?X8 = "2 * (138064852 / 10 ^ 31) * 10 ^ 8 / (910938356 / 10 ^ 39) :: real"
  let ?X10 = "2 * (138064852 / 10 ^ 31) * 10 ^ 10 / (910938356 / 10 ^ 39) :: real"
  have 6: "sqrt ?X6 < 0.05 * c_si env0"
    unfolding c by (rule real_less_lsqrt) (simp_all add: power2_eq_square)
  have 8: "0.05 * c_si env0 \<le> sqrt ?X8" "sqrt ?X8 < c_si env0"
    unfolding c
    by (rule real_le_rsqrt, simp add: power2_eq_square)
      (rule real_less_lsqrt, simp_all add: power2_eq_square)
  have 10: "c_si env0 \<le> sqrt ?X10"
    unfolding c by (rule real_le_rsqrt) (simp add: power2_eq_square)
  have cool: "thermal_speed env0 (Scalar (Finite (10 ^ 6))) ''e-'' ''most_probable'' NaN =
      ([], Inr (Scalar (Finite (sqrt ?X6))))"
    using G [of "10 ^ 6" ?X6] 6 by simp
  have warm: "thermal_speed env0 (Scalar (Finite (10 ^ 8))) ''e-'' ''most_probable'' NaN =
      ([RelativityWarning], Inr (Scalar (Finite (sqrt ?X8))))"
    using G [of "10 ^ 8" ?X8] 8 by simp
  have hot: "thermal_speed env0 (Scalar (Finite (10 ^ 10))) ''e-'' ''most_probable'' NaN =
      ([], Inl RelativityError)"
    using G [of "10 ^ 10" ?X10] 10 by simp
  have v: "validate_array (nonneg (vq_default env0)) (Scalar (Finite (10 ^ 10))) =
      Inr (Scalar (Finite (10 ^ 10)))"
    by (simp add: validate_array_nonneg_Scalar)
  have kap: "\<not> f_le (Finite (8 / 5)) (Finite (3 / 2))"
    by simp
  from relativistic_guard [OF c0, of "Scalar (Finite 0)" "[]" "[]" NaN
        "Finite 0" "MassDensity (Finite 0)" "[]" None "Finite 0" "Finite 0" None None
        PyObject PyObject "[]" None "Scalar (Finite (10 ^ 10))" "Finite (8 / 5)" "''e-''"
        "''most_probable''"] v kap hot
  have khot: "kappa_thermal_speed env0 (Scalar (Finite (10 ^ 10))) (Finite (8 / 5)) ''e-''
      ''most_probable'' = ([], Inl RelativityError)"
    by blast
  from c0 cool warm hot khot show ?thesis
    by blast
qed

section \<open>Thermal speed: the mass override\<close>

lemma thermal_speed_negative_mass:
  assumes "validate_array (nonneg (vq_default E)) T = Inr T" and "is_negative mass"
  shows "thermal_speed E T p method mass = ([], Inl NegativeValueError)"
  using assms
  by (simp add: thermal_speed_def thermal_speed_validated_def validate_mass_negative
      check_relativistic_def)

lemma thermal_speed_lookup_fails:
  assumes "validate_array (nonneg (vq_default E)) T = Inr T" and "Particle E p = Inr p'"
    and "\<not> is_negative mass" and "\<not> isfinite mass" and "particle_mass E p' = Inl ex"
  shows "thermal_speed E T p method mass = ([], Inl ex)"
  using assms
  by (simp add: thermal_speed_def thermal_speed_validated_def validate_mass_accepted
      thermal_speed_body_def check_relativistic_def)

lemma thermal_speed_at_mass:
  assumes "validate_array (nonneg (vq_default E)) T = Inr T" and "Particle E p = Inr p'"
    and "\<not> is_negative mass"
    and "isfinite mass \<and> m = mass \<or> \<not> isfinite mass \<and> particle_mass E p' = Inr m"
  shows "thermal_speed E T p method mass =
    check_relativistic E
      (bind_r (thermal_speed_formula E T method m) (\<lambda>V. lift (validate_array (vq_default E) V)))"
  using assms
  by (auto simp: thermal_speed_def thermal_speed_validated_def validate_mass_accepted
      thermal_speed_body_def)

lemma thermal_speed_env0_proton:
  "thermal_speed env0 (Scalar (Finite (10 ^ 6))) ''p+'' ''most_probable'' NaN =
     ([], Inr (Scalar (Finite (sqrt (2 * (138064852 / 10 ^ 31) * 10 ^ 6 / (1672621898 / 10 ^ 36))))))"
proof -
  let ?X = "2 * (138064852 / 10 ^ 31) * 10 ^ 6 / (1672621898 / 10 ^ 36) :: real"
  have "Particle env0 ''p+'' = Inr ''p+''" "particle_mass env0 ''p+'' = Inr (Finite (1672621898 / 10 ^ 36))"
    "k_B env0 = 138064852 / 10 ^ 31"
    by (simp_all add: env0_def)
  then have raw: "thermal_speed_validated env0 (Scalar (Finite (10 ^ 6))) ''p+'' ''most_probable'' NaN =
      ([], Inr (Scalar (Finite (sqrt ?X))))"
    by (simp add: thermal_speed_validated_def thermal_speed_body_def thermal_speed_formula_def
        validate_array_nonneg_Scalar validate_mass_nonfinite ok_def lift_def)
  have "check_relativistic env0 ([], Inr (Scalar (Finite (sqrt ?X)))) = ([], Inr (Scalar (Finite (sqrt ?X))))"
    by (rule check_relativistic_below) (simp_all add: env0_def power2_eq_square)
  with raw show ?thesis
    by (simp only: thermal_speed_def)
qed

text \<open>
  Claim C9, as stated, fails for a negative mass override. The decorator line declares
  \<^verbatim>\<open>can_be_negative: False\<close> for \<^verbatim>\<open>mass\<close>, so the override \<open>-inf\<close>, which
  is not finite, is rejected with NegativeValueError where the default NaN makes the
  call return the speed at the proton's resolved mass; and the finite override \<open>-1\<close>
  is rejected in the same way instead of replacing the resolved mass in the formula.
\<close>

theorem thermal_speed_negative_mass_counterexample:
  "\<not> isfinite NInf \<and>
   particle_mass env0 ''p+'' = Inr (Finite (1672621898 / 10 ^ 36)) \<and>
   thermal_speed env0 (Scalar (Finite (10 ^ 6))) ''p+'' ''most_probable'' NaN =
     ([], Inr (Scalar (Finite (sqrt (2 * (138064852 / 10 ^ 31) * 10 ^ 6 / (1672621898 / 10 ^ 36)))))) \<and>
   thermal_speed env0 (Scalar (Finite (10 ^ 6))) ''p+'' ''most_probable'' NInf =
     ([], Inl NegativeValueError) \<and>
   isfinite (Finite (- 1)) \<and>
   thermal_speed env0 (Scalar (Finite (10 ^ 6))) ''p+'' ''most_probable'' (Finite (- 1)) =
     ([], Inl NegativeValueError)"
proof -
  have T: "validate_array (nonneg (vq_default env0)) (Scalar (Finite (10 ^ 6))) =
      Inr (Scalar (Finite (10 ^ 6)))"
    by (simp add: validate_array_nonneg_Scalar)
  have a: "thermal_speed env0 (Scalar (Finite (10 ^ 6))) ''p+'' ''most_probable'' NInf =
      ([], Inl NegativeValueError)"
    by (rule thermal_speed_negative_mass [OF T]) simp
  have b: "thermal_speed env0 (Scalar (Finite (10 ^ 6))) ''p+'' ''most_probable'' (Finite (- 1)) =
      ([], Inl NegativeValueError)"
    by (rule thermal_speed_negative_mass [OF T]) simp
  have m: "particle_mass env0 ''p+'' = Inr (Finite (1672621898 / 10 ^ 36))"
    by (simp add: env0_def)
  from a b m thermal_speed_env0_proton show ?thesis
    by simp
qed

text \<open>
  Claim C9, amended. For a temperature that passes its validation and a descriptor that
  the particle decorator accepts, the mass override decides the call as follows. A
  negative override, finite or infinite, is rejected with NegativeValueError. Every
  other override passes the validation, NaN (the default) among them: no
  InvalidValueError is raised for the mass. An override that is NaN or positive
  infinity makes the function look the mass of the particle up: the call raises what
  the lookup raises, or uses the resolved mass. A finite override that is not negative
  is used in place of the resolved mass. With \<open>m\<close> the mass so chosen, the call is the
  guarded, validated value of \<open>sqrt(2 k_B T / m)\<close>, \<open>sqrt(3 k_B T / m)\<close> or
  \<open>sqrt(8 k_B T / (m pi))\<close> for the three methods, and the ValueError of the function
  for any other method. In particular a call with an override that is NaN or positive
  infinity equals the call that passes the resolved mass itself, when that mass is
  finite and not negative.
\<close>

theorem thermal_speed_mass_override:
  assumes T: "validate_array (nonneg (vq_default E)) T = Inr T"
    and P: "Particle E p = Inr p'"
  shows
    "(is_negative mass \<longrightarrow> thermal_speed E T p method mass = ([], Inl NegativeValueError)) \<and>
     (\<not> is_negative mass \<longrightarrow> validate_quantity (mass_spec E) mass = Inr mass) \<and>
     (\<forall>ex. \<not> is_negative mass \<longrightarrow> \<not> isfinite mass \<longrightarrow> particle_mass E p' = Inl ex \<longrightarrow>
        thermal_speed E T p method mass = ([], Inl ex)) \<and>
     (\<forall>m. \<not> is_negative mass \<longrightarrow>
        (isfinite mass \<and> m = mass \<or> \<not> isfinite mass \<and> particle_mass E p' = Inr m) \<longrightarrow>
        (method = ''most_probable'' \<longrightarrow>
           thermal_speed E T p method mass =
             check_relativistic E (lift (validate_array (vq_default E)
               (elementwise (\<lambda>t. f_sqrt (f_div (f_mul (Finite (2 * k_B E)) t) m)) T)))) \<and>
        (method = ''rms'' \<longrightarrow>
           thermal_speed E T p method mass =
             check_relativistic E (lift (validate_array (vq_default E)
               (elementwise (\<lambda>t. f_sqrt (f_div (f_mul (Finite (3 * k_B E)) t) m)) T)))) \<and>
        (method = ''mean_magnitude'' \<longrightarrow>
           thermal_speed E T p method mass =
             check_relativistic E (lift (validate_array (vq_default E)
               (elementwise (\<lambda>t. f_sqrt (f_div (f_mul (Finite (8 * k_B E)) t) (f_mul m (Finite pi)))) T)))) \<and>
        (method \<noteq> ''most_probable'' \<and> method \<noteq> ''rms'' \<and> method \<noteq> ''mean_magnitude'' \<longrightarrow>
           thermal_speed E T p method mass =
             ([], Inl (ValueError ''Method {method} not supported in thermal_speed'')))) \<and>
     (\<forall>m. \<not> is_negative mass \<longrightarrow> \<not> isfinite mass \<longrightarrow>
        particle_mass E p' = Inr m \<longrightarrow> isfinite m \<longrightarrow> \<not> is_negative m \<longrightarrow>
        thermal_speed E T p method mass = thermal_speed E T p method m)"
proof (intro conjI allI impI)
  assume "is_negative mass"
  with T show "thermal_speed E T p method mass = ([], Inl NegativeValueError)"
    by (rule thermal_speed_negative_mass)
next
  assume "\<not> is_negative mass"
  then show "validate_quantity (mass_spec E) mass = Inr mass"
    by (rule validate_mass_accepted)
next
  fix ex
  assume "\<not> is_negative mass" "\<not> isfinite mass" "particle_mass E p' = Inl ex"
  with T P show "thermal_speed E T p method mass = ([], Inl ex)"
    by (rule thermal_speed_lookup_fails)
next
  fix m
  assume "\<not> is_negative mass"
    and "isfinite mass \<and> m = mass \<or> \<not> isfinite mass \<and> particle_mass E p' = Inr m"
  with T P have eq: "thermal_speed E T p method mass =
      check_relativistic E
        (bind_r (thermal_speed_formula E T method m) (\<lambda>V. lift (validate_array (vq_default E) V)))"
    by (rule thermal_speed_at_mass)
  {
    assume "method = ''most_probable''"
    then show "thermal_speed E T p method mass =
        check_relativistic E (lift (validate_array (vq_default E)
          (elementwise (\<lambda>t. f_sqrt (f_div (f_mul (Finite (2 * k_B E)) t) m)) T)))"
      unfolding eq by (simp add: thermal_speed_formula_def)
  }
  {
    assume "method = ''rms''"
    then show "thermal_speed E T p method mass =
        check_relativistic E (lift (validate_array (vq_default E)
          (elementwise (\<lambda>t. f_sqrt (f_div (f_mul (Finite (3 * k_B E)) t) m)) T)))"
      unfolding eq by (simp add: thermal_speed_formula_def)
  }
  {
    assume "method = ''mean_magnitude''"
    then show "thermal_speed E T p method mass =
        check_relativistic E (lift (validate_array (vq_default E)
          (elementwise (\<lambda>t. f_sqrt (f_div (f_mul (Finite (8 * k_B E)) t) (f_mul m (Finite pi)))) T)))"
      unfolding eq by (simp add: thermal_speed_formula_def)
  }
  {
    assume "method \<noteq> ''most_probable'' \<and> method \<noteq> ''rms'' \<and> method \<noteq> ''mean_magnitude''"
    then show "thermal_speed E T p method mass =
        ([], Inl (ValueError ''Method {method} not supported in thermal_speed''))"
      unfolding eq by (simp add: thermal_speed_formula_def check_relativistic_def)
  }
next
  fix m
  assume mass: "\<not> is_negative mass" "\<not> isfinite mass" "particle_mass E p' = Inr m"
    and m: "isfinite m" "\<not> is_negative m"
  from mass have "isfinite mass \<and> m = mass \<or> \<not> isfinite mass \<and> particle_mass E p' = Inr m"
    by simp
  with T P mass(1) have "thermal_speed E T p method mass =
      check_relativistic E
        (bind_r (thermal_speed_formula E T method m) (\<lambda>V. lift (validate_array (vq_default E) V)))"
    by (rule thermal_speed_at_mass)
  moreover from m have "isfinite m \<and> m = m \<or> \<not> isfinite m \<and> particle_mass E p' = Inr m"
    by simp
  with T P m(2) have "thermal_speed E T p method m =
      check_relativistic E
        (bind_r (thermal_speed_formula E T method m) (\<lambda>V. lift (validate_array (vq_default E) V)))"
    by (rule thermal_speed_at_mass)
  ultimately show "thermal_speed E T p method mass = thermal_speed E T p method m"
    by simp
qed

theorem thermal_speed_mass_override_witness:
  "validate_array (nonneg (vq_default env0)) (Scalar (Finite (10 ^ 6))) =
     Inr (Scalar (Finite (10 ^ 6))) \<and>
   Particle env0 ''p+'' = Inr ''p+'' \<and>
   particle_mass env0 ''p+'' = Inr (Finite (1672621898 / 10 ^ 36)) \<and>
   thermal_speed env0 (Scalar (Finite (10 ^ 6))) ''p+'' ''most_probable'' NInf =
     ([], Inl NegativeValueError) \<and>
   thermal_speed env0 (Scalar (Finite (10 ^ 6))) ''p+'' ''most_probable'' NaN =
     ([], Inr (Scalar (Finite (sqrt (2 * (138064852 / 10 ^ 31) * 10 ^ 6 / (1672621898 / 10 ^ 36)))))) \<and>
   thermal_speed env0 (Scalar (Finite (10 ^ 6))) ''p+'' ''most_probable'' PInf =
     thermal_speed env0 (Scalar (Finite (10 ^ 6))) ''p+'' ''most_probable''
       (Finite (1672621898 / 10 ^ 36)) \<and>
   thermal_speed env0 (Scalar (Finite (10 ^ 6))) ''p+'' ''rms'' (Finite (3343583719 / 10 ^ 36)) =
     ([], Inr (Scalar (Finite (sqrt (3 * (138064852 / 10 ^ 31) * 10 ^ 6 / (3343583719 / 10 ^ 36)))))) \<and>
   thermal_speed env0 (Scalar (Finite (10 ^ 6))) ''p+'' ''fastest'' NaN =
     ([], Inl (ValueError ''Method {method} not supported in thermal_speed''))"
proof -
  let ?T = "Scalar (Finite (10 ^ 6))"
  let ?X = "2 * (138064852 / 10 ^ 31) * 10 ^ 6 / (1672621898 / 10 ^ 36) :: real"
  let ?Y = "3 * (138064852 / 10 ^ 31) * 10 ^ 6 / (3343583719 / 10 ^ 36) :: real"
  have T: "validate_array (nonneg (vq_default env0)) ?T = Inr ?T"
    by (simp add: validate_array_nonneg_Scalar)
  have P: "Particle env0 ''p+'' = Inr ''p+''"
    and m: "particle_mass env0 ''p+'' = Inr (Finite (1672621898 / 10 ^ 36))"
    and k: "k_B env0 = 138064852 / 10 ^ 31"
    by (simp_all add: env0_def)
  note Th = thermal_speed_mass_override [OF T P]
  from Th [of NInf "''most_probable''"]
  have a: "thermal_speed env0 ?T ''p+'' ''most_probable'' NInf = ([], Inl NegativeValueError)"
    by simp
  from Th [of NaN "''most_probable''"] m
  have "thermal_speed env0 ?T ''p+'' ''most_probable'' NaN =
      check_relativistic env0 (lift (validate_array (vq_default env0)
        (elementwise (\<lambda>t. f_sqrt (f_div (f_mul (Finite (2 * k_B env0)) t)
           (Finite (1672621898 / 10 ^ 36)))) ?T)))"
    by simp
  also have "\<dots> = check_relativistic env0 ([], Inr (Scalar (Finite (sqrt ?X))))"
    by (simp add: k lift_def)
  also have "\<dots> = ([], Inr (Scalar (Finite (sqrt ?X))))"
    by (rule check_relativistic_below) (simp_all add: env0_def power2_eq_square)
  finally have b: "thermal_speed env0 ?T ''p+'' ''most_probable'' NaN =
      ([], Inr (Scalar (Finite (sqrt ?X))))" .
  from Th [of PInf "''most_probable''"]
  have "\<forall>m. \<not> is_negative PInf \<longrightarrow> \<not> isfinite PInf \<longrightarrow>
      particle_mass env0 ''p+'' = Inr m \<longrightarrow> isfinite m \<longrightarrow> \<not> is_negative m \<longrightarrow>
      thermal_speed env0 ?T ''p+'' ''most_probable'' PInf =
        thermal_speed env0 ?T ''p+'' ''most_probable'' m"
    by blast
  with m have c: "thermal_speed env0 ?T ''p+'' ''most_probable'' PInf =
      thermal_speed env0 ?T ''p+'' ''most_probable'' (Finite (1672621898 / 10 ^ 36))"
    by simp
  from Th [of "Finite (3343583719 / 10 ^ 36)" "''rms''"]
  have "thermal_speed env0 ?T ''p+'' ''rms'' (Finite (3343583719 / 10 ^ 36)) =
      check_relativistic env0 (lift (validate_array (vq_default env0)
        (elementwise (\<lambda>t. f_sqrt (f_div (f_mul (Finite (3 * k_B env0)) t)
           (Finite (3343583719 / 10 ^ 36)))) ?T)))"
    by simp
  also have "\<dots> = check_relativistic env0 ([], Inr (Scalar (Finite (sqrt ?Y))))"
    by (simp add: k lift_def)
  also have "\<dots> = ([], Inr (Scalar (Finite (sqrt ?Y))))"
    by (rule check_relativistic_below) (simp_all add: env0_def power2_eq_square)
  finally have d: "thermal_speed env0 ?T ''p+'' ''rms'' (Finite (3343583719 / 10 ^ 36)) =
      ([], Inr (Scalar (Finite (sqrt ?Y))))" .
  from Th [of NaN "''fastest''"] m
  have e: "thermal_speed env0 ?T ''p+'' ''fastest'' NaN =
      ([], Inl (ValueError ''Method {method} not supported in thermal_speed''))"
    by simp
  from T P m a b c d e show ?thesis
    by blast
qed

section \<open>Gyroradius: exclusive inputs and the copied array\<close>

lemma np_any_Scalar [simp]: "np_any (Scalar b) = b"
  by (simp add: np_any_def)

lemma np_any_Array [simp]: "np_any (Array bs) = (True \<in> set bs)"
  by (auto simp: np_any_def list_ex_iff)

lemma xor_check_SS:
  assumes "broadcast2 (\<lambda>x y. x \<noteq> y) (elementwise isfinite (Scalar v0)) (elementwise isfinite (Scalar t0)) = Inr x"
    and "\<not> np_any (elementwise Not x)"
    and "(v, t) \<in> set (positions (Scalar v0) (Scalar t0))"
  shows "isfinite v \<noteq> isfinite t"
  using assms by auto

lemma xor_check_SA:
  assumes "broadcast2 (\<lambda>x y. x \<noteq> y) (elementwise isfinite (Scalar v0)) (elementwise isfinite (Array ts)) = Inr x"
    and "\<not> np_any (elementwise Not x)"
    and "(v, t) \<in> set (positions (Scalar v0) (Array ts))"
  shows "isfinite v \<noteq> isfinite t"
  using assms by auto

lemma xor_check_AS:
  assumes "broadcast2 (\<lambda>x y. x \<noteq> y) (elementwise isfinite (Array vs)) (elementwise isfinite (Scalar t0)) = Inr x"
    and "\<not> np_any (elementwise Not x)"
    and "(v, t) \<in> set (positions (Array vs) (Scalar t0))"
  shows "isfinite v \<noteq> isfinite t"
  using assms by auto


lemma xor_check_AA:
  assumes x: "broadcast2 (\<lambda>x y. x \<noteq> y) (elementwise isfinite (Array vs)) (elementwise isfinite (Array ts)) = Inr x"
    and any: "\<not> np_any (elementwise Not x)"
    and vt: "(v, t) \<in> set (positions (Array vs) (Array ts))"
  shows "isfinite v \<noteq> isfinite t"
proof -
  from vt have z: "(v, t) \<in> set (zip vs ts)" by simp
  then have v: "v \<in> set vs" and t: "t \<in> set ts"
    by (auto dest: set_zip_leftD set_zip_rightD)
  consider (eq) "length vs = length ts"
    | (l) "length vs \<noteq> length ts" "length vs = 1"
    | (r) "length vs \<noteq> length ts" "length vs \<noteq> 1" "length ts = 1"
    using x by (auto split: if_splits)
  then show ?thesis
  proof cases
    case eq
    then have "\<forall>p \<in> set (zip vs ts). isfinite (fst p) \<noteq> isfinite (snd p)"
      using x any by (fastforce simp: zip_map_map image_iff)
    then show ?thesis using z by force
  next
    case l
    then obtain v0 where vs: "vs = [v0]"
      by (cases vs) auto
    then have "\<forall>b \<in> set ts. isfinite v0 \<noteq> isfinite b"
      using x l any by (fastforce simp: image_iff)
    then show ?thesis using v t vs by simp
  next
    case r
    then obtain t0 where ts: "ts = [t0]"
      by (cases ts) auto
    then have "\<forall>a \<in> set vs. isfinite a \<noteq> isfinite t0"
      using x r any by (fastforce simp: image_iff)
    then show ?thesis using v t ts by simp
  qed
qed

lemma xor_check:
  assumes "broadcast2 (\<lambda>x y. x \<noteq> y) (elementwise isfinite V) (elementwise isfinite T) = Inr x"
    and "\<not> np_any (elementwise Not x)"
    and "(v, t) \<in> set (positions V T)"
  shows "isfinite v \<noteq> isfinite t"
proof (cases V)
  case V: (Scalar v0)
  show ?thesis
  proof (cases T)
    case (Scalar t0)
    with V assms show ?thesis by (intro xor_check_SS [of v0 t0 x v t]) simp_all
  next
    case (Array ts)
    with V assms show ?thesis by (intro xor_check_SA [of v0 ts x v t]) simp_all
  qed
next
  case V: (Array vs)
  show ?thesis
  proof (cases T)
    case (Scalar t0)
    with V assms show ?thesis by (intro xor_check_AS [of vs t0 x v t]) simp_all
  next
    case (Array ts)
    with V assms show ?thesis by (intro xor_check_AA [of vs ts x v t]) simp_all
  qed
qed


lemma thermal_speed_success:
  assumes "thermal_speed E T p ''most_probable'' NaN = (ws, Inr v)"
  obtains p' m where "Particle E p = Inr p'" "particle_mass E p' = Inr m"
    "v = elementwise (\<lambda>t. f_sqrt (f_div (f_mul (Finite (2 * k_B E)) t) m)) T"
proof -
  from assms obtain ws' where "thermal_speed_validated E T p ''most_probable'' NaN = (ws', Inr v)"
    unfolding thermal_speed_def by (rule check_relativistic_success)
  then obtain T' mass' p' V where T': "validate_array (nonneg (vq_default E)) T = Inr T'"
    and "validate_quantity (mass_spec E) NaN = Inr mass'"
    and p': "Particle E p = Inr p'"
    and body: "snd (thermal_speed_body E T' p' ''most_probable'' mass') = Inr V"
    and V: "validate_array (vq_default E) V = Inr v"
    unfolding thermal_speed_validated_def
    by (elim bind_r_success) (auto dest!: lift_success)
  have "mass' = NaN"
    using \<open>validate_quantity (mass_spec E) NaN = Inr mass'\<close> by (auto dest: validate_quantity_Inr)
  with body obtain m where m: "particle_mass E p' = Inr m"
    and "V = elementwise (\<lambda>t. f_sqrt (f_div (f_mul (Finite (2 * k_B E)) t) m)) T'"
    by (cases "particle_mass E p'")
      (auto simp: thermal_speed_body_def thermal_speed_formula_def ok_def)
  moreover have "T' = T" "v = V"
    using T' V by (auto dest: validate_array_Inr)
  ultimately show ?thesis using p' that by blast
qed

lemma mask_assign_map:
  "length xs = length ts \<Longrightarrow>
   mask_assign xs (map P ts) (map g (mask_select ts (map P ts))) =
     map2 (\<lambda>x t. if P t then g t else x) xs ts"
  by (induction xs ts rule: list_induct2) simp_all

lemma length_mask_select: "length (mask_select ts (map P ts)) = length (filter id (map P ts))"
  by (induction ts) simp_all


lemma broadcast2_Inl:
  "broadcast2 f a b = Inl ex \<Longrightarrow> ex = ValueError ''operands could not be broadcast together''"
  by (cases a; cases b) (auto split: if_splits)

lemma gyroradius_check2_frame: "take (length h) (snd (gyroradius_check2 E h p V T)) = h"
proof (cases V)
  case (ScalarV v)
  then show ?thesis by (cases T) (simp_all add: gyroradius_check2_def)
next
  case (ArrayRef a)
  show ?thesis
  proof (cases T)
    case (Scalar t)
    then show ?thesis using ArrayRef by (simp add: gyroradius_check2_def)
  next
    case (Array ts)
    then show ?thesis using ArrayRef
      by (auto simp: gyroradius_check2_def np_copy_def mask_store_def
          split: prod.splits sum.splits if_splits)
  qed
qed

lemma gyroradius_body_frame: "take (length h) (snd (gyroradius_body E h B p V T)) = h"
  using gyroradius_check2_frame [of h E p V T]
  by (auto simp: gyroradius_body_def split: sum.splits prod.splits)

lemma gyroradius_frame: "take (length h) (snd (gyroradius E h B p V T)) = h"
proof -
  have "snd (gyroradius E h B p V T) = h \<or>
    (\<exists>B' T'. snd (gyroradius E h B p V T) = snd (gyroradius_body E h B' p V T'))"
    by (auto simp: gyroradius_def split: sum.splits prod.splits) (metis snd_conv)
  then show ?thesis
    using gyroradius_body_frame by auto
qed


lemma gyroradius_body_violation:
  assumes "(v, t) \<in> set (positions (deref h V) T)" "isfinite v = isfinite t"
  shows "\<exists>msg. gyroradius_body E h B p V T = (([], Inl (ValueError msg)), h)"
proof (cases "broadcast2 (\<lambda>x y. x \<noteq> y) (elementwise isfinite (deref h V)) (elementwise isfinite T)")
  case (Inl ex)
  then have "ex = ValueError ''operands could not be broadcast together''"
    by (rule broadcast2_Inl)
  with Inl show ?thesis
    unfolding gyroradius_body_def by (simp add: raise_def)
next
  case (Inr x)
  with assms have "np_any (elementwise Not x)"
    using xor_check by blast
  with Inr show ?thesis
    unfolding gyroradius_body_def by (simp add: raise_def)
qed

lemma broadcast2_same_shape:
  assumes "\<forall>vs ts. V = Array vs \<longrightarrow> T = Array ts \<longrightarrow> length vs = length ts"
  obtains x where "broadcast2 f V T = Inr x"
proof (cases V)
  case (Scalar v)
  then show ?thesis using that by (cases T) simp_all
next
  case V: (Array vs)
  show ?thesis
  proof (cases T)
    case (Scalar t)
    then show ?thesis using that V by simp
  next
    case (Array ts)
    with V assms have "length vs = length ts" by blast
    then show ?thesis using that V Array by simp
  qed
qed



lemma gyroradius_body_violation_same_shape:
  assumes vt: "(v, t) \<in> set (positions (deref h V) T)" "isfinite v = isfinite t"
    and shape: "\<forall>vs ts. deref h V = Array vs \<longrightarrow> T = Array ts \<longrightarrow> length vs = length ts"
  shows "gyroradius_body E h B p V T =
    (([], Inl (ValueError ''Must give Vperp or T_i, but not both, as arguments to gyroradius'')), h)"
proof -
  have "length vs = length ts"
    if "elementwise isfinite (deref h V) = Array vs" "elementwise isfinite T = Array ts" for vs ts
  proof -
    from that obtain vs' ts' where "deref h V = Array vs'" "T = Array ts'"
      "vs = map isfinite vs'" "ts = map isfinite ts'"
      by (cases "deref h V"; cases T) auto
    with shape show ?thesis by simp
  qed
  then have "\<forall>vs ts. elementwise isfinite (deref h V) = Array vs \<longrightarrow> elementwise isfinite T = Array ts \<longrightarrow>
      length vs = length ts"
    by blast
  then obtain x where x: "broadcast2 (\<lambda>x y. x \<noteq> y) (elementwise isfinite (deref h V)) (elementwise isfinite T) = Inr x"
    by (rule broadcast2_same_shape)
  have "np_any (elementwise Not x)"
    using xor_check [OF x _ vt(1)] vt(2) by blast
  with x show ?thesis
    unfolding gyroradius_body_def by (simp add: raise_def)
qed


lemma gyroradius_body_success:
  assumes "fst (gyroradius_body E h B p V T) = (ws, Inr r)"
  obtains x where "broadcast2 (\<lambda>x y. x \<noteq> y) (elementwise isfinite (deref h V)) (elementwise isfinite T) = Inr x"
    "\<not> np_any (elementwise Not x)"
proof (cases "broadcast2 (\<lambda>x y. x \<noteq> y) (elementwise isfinite (deref h V)) (elementwise isfinite T)")
  case (Inl ex)
  with assms show ?thesis
    unfolding gyroradius_body_def by (simp add: raise_def)
next
  case (Inr x)
  have "\<not> np_any (elementwise Not x)"
  proof
    assume "np_any (elementwise Not x)"
    with Inr have "fst (gyroradius_body E h B p V T) =
        ([], Inl (ValueError ''Must give Vperp or T_i, but not both, as arguments to gyroradius''))"
      unfolding gyroradius_body_def by (simp add: raise_def)
    with assms show False by simp
  qed
  with Inr that show ?thesis by blast
qed

lemma gyroradius_success:
  assumes "gyroradius E h B p V T = ((ws, Inr r), h')"
  obtains ws' r' where "validate_quantity (vq_default E) B = Inr B"
    "validate_array (nan_ok (vq_default E)) (deref h V) = Inr (deref h V)"
    "validate_array (nan_ok (vq_default E)) T = Inr T"
    "gyroradius_body E h B p V T = ((ws', Inr r'), h')"
    "validate_array (vq_default E) r' = Inr r" "ws' = ws"
proof -
  from assms obtain B' V' T' where B: "validate_quantity (vq_default E) B = Inr B'"
    and V: "validate_array (nan_ok (vq_default E)) (deref h V) = Inr V'"
    and T: "validate_array (nan_ok (vq_default E)) T = Inr T'"
    by (cases "validate_quantity (vq_default E) B";
        cases "validate_array (nan_ok (vq_default E)) (deref h V)";
        cases "validate_array (nan_ok (vq_default E)) T")
      (simp_all add: gyroradius_def raise_def)
  then have eq: "B' = B" "V' = deref h V" "T' = T"
    by (auto dest: validate_quantity_Inr validate_array_Inr)
  obtain res h2 where body: "gyroradius_body E h B p V T = (res, h2)"
    by (cases "gyroradius_body E h B p V T")
  with assms B V T eq have h2: "h2 = h'"
    and res: "bind_r res (\<lambda>r_Li. lift (validate_array (vq_default E) r_Li)) = (ws, Inr r)"
    by (simp_all add: gyroradius_def)
  from res obtain ws1 r' ws2 where "res = (ws1, Inr r')"
    "lift (validate_array (vq_default E) r') = (ws2, Inr r)" "ws = ws1 @ ws2"
    by (rule bind_r_success)
  then show ?thesis
    using that B V T eq body h2 by (auto dest: lift_success)
qed

lemma validate_array_nan_ok_env0 [simp]: "validate_array (nan_ok (vq_default env0)) x = Inr x"
  by (simp add: validate_array_def nan_ok_def env0_def)

lemma gyrofrequency_env0_electron:
  "gyrofrequency env0 (Finite (1 / 5)) ''e-'' False None False =
     ([], Inr (Finite (16021766208 / 10 ^ 29 * (1 / 5) / (910938356 / 10 ^ 39))))"
  by (simp add: gyrofrequency_def gyrofrequency_body_def angular_freq_to_hz_def grab_charge_def
      env0_def validate_quantity_def lift_def ok_def)

lemma gyroradius_env0_scalar:
  "gyroradius env0 [] (Finite (1 / 5)) ''e-'' (ScalarV (Finite (10 ^ 6))) (Scalar NaN) =
     (([], Inr (Scalar (Finite (10 ^ 6 / (16021766208 / 10 ^ 29 * (1 / 5) / (910938356 / 10 ^ 39)))))), [])"
  using gyrofrequency_env0_electron
  by (simp add: gyroradius_def gyroradius_body_def gyroradius_check2_def gyroradius_finish_def
      np_any_def ok_def lift_def)

text \<open>
  Claim C3. For inputs that pass the input validation: if at some element position
  \<^verbatim>\<open>Vperp\<close> and \<^verbatim>\<open>T_i\<close> are both finite or both NaN, \<^verbatim>\<open>gyroradius\<close> raises a
  ValueError and leaves the store as it was; for two scalars, a scalar and an array, or
  two arrays of one length it is the ValueError of check 1 (arrays of lengths that do
  not broadcast raise NumPy's ValueError instead). A call that returns has exactly one
  of the two finite at every position.
\<close>

theorem gyroradius_exclusive:
  "(validate_quantity (vq_default E) B = Inr B \<longrightarrow>
    validate_array (nan_ok (vq_default E)) (deref h Vperp) = Inr (deref h Vperp) \<longrightarrow>
    validate_array (nan_ok (vq_default E)) T_i = Inr T_i \<longrightarrow>
    (\<forall>v t. (v, t) \<in> set (positions (deref h Vperp) T_i) \<longrightarrow>
       (isfinite v \<and> isfinite t \<or> isnan v \<and> isnan t) \<longrightarrow>
       (\<exists>msg. gyroradius E h B p Vperp T_i = (([], Inl (ValueError msg)), h)) \<and>
       ((\<forall>vs ts. deref h Vperp = Array vs \<longrightarrow> T_i = Array ts \<longrightarrow> length vs = length ts) \<longrightarrow>
          gyroradius E h B p Vperp T_i =
            (([], Inl (ValueError ''Must give Vperp or T_i, but not both, as arguments to gyroradius'')), h)))) \<and>
   (\<forall>ws r h'. gyroradius E h B p Vperp T_i = ((ws, Inr r), h') \<longrightarrow>
      (\<forall>(v, t) \<in> set (positions (deref h Vperp) T_i). isfinite v \<noteq> isfinite t))"
proof (intro conjI allI impI)
  fix v t
  assume val: "validate_quantity (vq_default E) B = Inr B"
    "validate_array (nan_ok (vq_default E)) (deref h Vperp) = Inr (deref h Vperp)"
    "validate_array (nan_ok (vq_default E)) T_i = Inr T_i"
    and vt: "(v, t) \<in> set (positions (deref h Vperp) T_i)"
    and both: "isfinite v \<and> isfinite t \<or> isnan v \<and> isnan t"
  have same: "isfinite v = isfinite t"
    using both by (cases v; cases t) auto
  from gyroradius_body_violation [OF vt same, of E B p]
  obtain msg where "gyroradius_body E h B p Vperp T_i = (([], Inl (ValueError msg)), h)"
    by blast
  then have "gyroradius E h B p Vperp T_i = (([], Inl (ValueError msg)), h)"
    using val by (simp add: gyroradius_def)
  then show "\<exists>msg. gyroradius E h B p Vperp T_i = (([], Inl (ValueError msg)), h)"
    by blast
  assume "\<forall>vs ts. deref h Vperp = Array vs \<longrightarrow> T_i = Array ts \<longrightarrow> length vs = length ts"
  from gyroradius_body_violation_same_shape [OF vt same this, of E B p]
  show "gyroradius E h B p Vperp T_i =
      (([], Inl (ValueError ''Must give Vperp or T_i, but not both, as arguments to gyroradius'')), h)"
    using val by (simp add: gyroradius_def)
next
  fix ws r h'
  assume "gyroradius E h B p Vperp T_i = ((ws, Inr r), h')"
  then obtain ws' r' where "gyroradius_body E h B p Vperp T_i = ((ws', Inr r'), h')"
    by (rule gyroradius_success)
  then have "fst (gyroradius_body E h B p Vperp T_i) = (ws', Inr r')"
    by simp
  then obtain x where "broadcast2 (\<lambda>x y. x \<noteq> y) (elementwise isfinite (deref h Vperp))
      (elementwise isfinite T_i) = Inr x" "\<not> np_any (elementwise Not x)"
    by (rule gyroradius_body_success)
  then show "\<forall>(v, t) \<in> set (positions (deref h Vperp) T_i). isfinite v \<noteq> isfinite t"
    using xor_check by blast
qed

theorem gyroradius_exclusive_witness:
  "gyroradius env0 [] (Finite (1 / 5)) ''e-'' (ScalarV NaN) (Scalar NaN) =
     (([], Inl (ValueError ''Must give Vperp or T_i, but not both, as arguments to gyroradius'')), []) \<and>
   gyroradius env0 [] (Finite (1 / 5)) ''e-'' (ScalarV (Finite 1)) (Scalar (Finite 1)) =
     (([], Inl (ValueError ''Must give Vperp or T_i, but not both, as arguments to gyroradius'')), []) \<and>
   gyroradius env0 [[Finite 1, NaN]] (Finite (1 / 5)) ''e-'' (ArrayRef 0) (Array [NaN, NaN]) =
     (([], Inl (ValueError ''Must give Vperp or T_i, but not both, as arguments to gyroradius'')),
      [[Finite 1, NaN]]) \<and>
   gyroradius env0 [] (Finite (1 / 5)) ''e-'' (ScalarV (Finite (10 ^ 6))) (Scalar NaN) =
     (([], Inr (Scalar (Finite (10 ^ 6 / (16021766208 / 10 ^ 29 * (1 / 5) / (910938356 / 10 ^ 39)))))), []) \<and>
   isfinite (Finite (10 ^ 6)) \<noteq> isfinite NaN"
proof -
  have B: "validate_quantity (vq_default env0) (Finite (1 / 5)) = Inr (Finite (1 / 5))"
    by simp
  have V: "validate_array (nan_ok (vq_default env0)) x = Inr x" for x
    by simp
  note T1 = gyroradius_exclusive [of env0 "Finite (1 / 5)" "[]" "ScalarV NaN" "Scalar NaN" "''e-''"]
  have a: "gyroradius env0 [] (Finite (1 / 5)) ''e-'' (ScalarV NaN) (Scalar NaN) =
     (([], Inl (ValueError ''Must give Vperp or T_i, but not both, as arguments to gyroradius'')), [])"
    using T1 B V by simp
  note T2 = gyroradius_exclusive [of env0 "Finite (1 / 5)" "[]" "ScalarV (Finite 1)"
      "Scalar (Finite 1)" "''e-''"]
  have b: "gyroradius env0 [] (Finite (1 / 5)) ''e-'' (ScalarV (Finite 1)) (Scalar (Finite 1)) =
     (([], Inl (ValueError ''Must give Vperp or T_i, but not both, as arguments to gyroradius'')), [])"
    using T2 B V by simp
  note T3 = gyroradius_exclusive [of env0 "Finite (1 / 5)" "[[Finite 1, NaN]]" "ArrayRef 0"
      "Array [NaN, NaN]" "''e-''"]
  have "(NaN, NaN) \<in> set (positions (deref [[Finite 1, NaN]] (ArrayRef 0)) (Array [NaN, NaN]))"
    by simp
  with T3 B V have c: "gyroradius env0 [[Finite 1, NaN]] (Finite (1 / 5)) ''e-'' (ArrayRef 0)
      (Array [NaN, NaN]) =
     (([], Inl (ValueError ''Must give Vperp or T_i, but not both, as arguments to gyroradius'')),
      [[Finite 1, NaN]])"
    by force
  note T4 = gyroradius_exclusive [of env0 "Finite (1 / 5)" "[]" "ScalarV (Finite (10 ^ 6))"
      "Scalar NaN" "''e-''"]
  note d = gyroradius_env0_scalar
  from T4 d have "\<forall>(v, t) \<in> set (positions (deref [] (ScalarV (Finite (10 ^ 6)))) (Scalar NaN)).
      isfinite v \<noteq> isfinite t"
    by blast
  then have e: "isfinite (Finite (10 ^ 6)) \<noteq> isfinite NaN"
    by simp
  from a b c d e show ?thesis by blast
qed

lemma gyroradius_check2_arrays:
  assumes len: "length ts = length (h ! a)"
    and ok: "gyroradius_check2 E h p (ArrayRef a) (Array ts) = ((ws, Inr V), h')"
  obtains p' m where "Particle E p = Inr p'" "particle_mass E p' = Inr m"
    "V = Array (map2 (\<lambda>x t. if isfinite t then f_sqrt (f_div (f_mul (Finite (2 * k_B E)) t) m) else x)
                  (h ! a) ts)"
    "h' = h @ [map2 (\<lambda>x t. if isfinite t then f_sqrt (f_div (f_mul (Finite (2 * k_B E)) t) m) else x)
                  (h ! a) ts]"
proof -
  let ?sel = "mask_select ts (map isfinite ts)"
  obtain ws1 r1 where th: "thermal_speed E (Array ?sel) p ''most_probable'' NaN = (ws1, r1)"
    by (cases "thermal_speed E (Array ?sel) p ''most_probable'' NaN")
  with ok obtain sp where r1: "r1 = Inr sp"
    by (cases r1) (simp_all add: gyroradius_check2_def np_copy_def)
  from th r1 obtain p' m where p': "Particle E p = Inr p'" and m: "particle_mass E p' = Inr m"
    and sp: "sp = elementwise (\<lambda>t. f_sqrt (f_div (f_mul (Finite (2 * k_B E)) t) m)) (Array ?sel)"
    by (auto elim: thermal_speed_success)
  let ?g = "\<lambda>t. f_sqrt (f_div (f_mul (Finite (2 * k_B E)) t) m)"
  have el: "elems sp = map ?g ?sel"
    using sp by simp
  have st: "mask_store (h @ [h ! a]) (length h) (map isfinite ts) (elems sp) =
      Inr ((h @ [h ! a])[length h := mask_assign (h ! a) (map isfinite ts) (map ?g ?sel)])"
    using len by (simp add: mask_store_def el length_mask_select)
  have new: "mask_assign (h ! a) (map isfinite ts) (map ?g ?sel) =
      map2 (\<lambda>x t. if isfinite t then ?g t else x) (h ! a) ts"
    using len by (intro mask_assign_map) simp
  from ok th r1 st new have "V = Array (map2 (\<lambda>x t. if isfinite t then ?g t else x) (h ! a) ts)"
    and "h' = h @ [map2 (\<lambda>x t. if isfinite t then ?g t else x) (h ! a) ts]"
    by (simp_all add: gyroradius_check2_def np_copy_def)
  with p' m that show ?thesis by blast
qed


lemma gyroradius_finish_success:
  assumes "gyroradius_finish E B p V = (ws, Inr r)"
  obtains w where "gyrofrequency E B p False None False = (ws, Inr w)"
    "r = elementwise (\<lambda>v. f_div (f_abs v) w) V"
proof -
  from assms obtain ws1 w ws2 where g: "gyrofrequency E B p False None False = (ws1, Inr w)"
    and "ok (elementwise (\<lambda>v. f_div (f_abs v) w) V) = (ws2, Inr r)" and "ws = ws1 @ ws2"
    unfolding gyroradius_finish_def by (rule bind_r_success)
  then have "r = elementwise (\<lambda>v. f_div (f_abs v) w) V" "ws = ws1"
    by (simp_all add: ok_def)
  with g that show ?thesis by blast
qed

lemma thermal_speed_env0_array:
  "thermal_speed env0 (Array [Finite (10 ^ 6)]) ''e-'' ''most_probable'' NaN =
     ([], Inr (Array [Finite (sqrt (2 * (138064852 / 10 ^ 31) * 10 ^ 6 / (910938356 / 10 ^ 39)))]))"
proof -
  let ?X = "2 * (138064852 / 10 ^ 31) * 10 ^ 6 / (910938356 / 10 ^ 39) :: real"
  have "Particle env0 ''e-'' = Inr ''e-''" "particle_mass env0 ''e-'' = Inr (Finite (910938356 / 10 ^ 39))"
    "k_B env0 = 138064852 / 10 ^ 31"
    by (simp_all add: env0_def)
  then have raw: "thermal_speed_validated env0 (Array [Finite (10 ^ 6)]) ''e-'' ''most_probable'' NaN =
      ([], Inr (Array [Finite (sqrt ?X)]))"
    by (simp add: thermal_speed_validated_def thermal_speed_body_def thermal_speed_formula_def
        validate_array_def nonneg_def validate_mass_nonfinite ok_def lift_def)
  have lt: "sqrt ?X < 0.05 * c_si env0"
    by (rule real_less_lsqrt) (simp_all add: env0_def power2_eq_square)
  have c: "0 < c_si env0"
    by (simp add: env0_def)
  have "check_relativistic env0 ([], Inr (Array [Finite (sqrt ?X)])) = ([], Inr (Array [Finite (sqrt ?X)]))"
    using lt c by (simp add: check_relativistic_def max_magnitude_def ok_def)
  with raw show ?thesis
    by (simp only: thermal_speed_def)
qed

lemma gyroradius_env0_arrays:
  "gyroradius env0 [[Finite (10 ^ 6), NaN]] (Finite (1 / 5)) ''e-'' (ArrayRef 0)
      (Array [NaN, Finite (10 ^ 6)]) =
     (([], Inr (Array
        [Finite (10 ^ 6 / (16021766208 / 10 ^ 29 * (1 / 5) / (910938356 / 10 ^ 39))),
         Finite (sqrt (2 * (138064852 / 10 ^ 31) * 10 ^ 6 / (910938356 / 10 ^ 39)) /
                 (16021766208 / 10 ^ 29 * (1 / 5) / (910938356 / 10 ^ 39)))])),
      [[Finite (10 ^ 6), NaN],
       [Finite (10 ^ 6), Finite (sqrt (2 * (138064852 / 10 ^ 31) * 10 ^ 6 / (910938356 / 10 ^ 39)))]])"
  using gyrofrequency_env0_electron thermal_speed_env0_array
  by (simp add: gyroradius_def gyroradius_body_def gyroradius_check2_def gyroradius_finish_def
      np_copy_def mask_store_def np_any_def bind_r_Inr ok_def lift_def)

text \<open>
  What the branch for two arrays computes when the call returns: the caller's
  \<^verbatim>\<open>Vperp\<close> still holds its elements, exactly one of the two arguments is finite
  at every index, and the result is an array of that length. Where \<^verbatim>\<open>T_i[i]\<close> is
  finite its element is the magnitude of the most probable thermal speed at
  \<^verbatim>\<open>T_i[i]\<close> (the value that \<^verbatim>\<open>thermal_speed(T_i[i], particle)\<close> returns
  whenever it returns) over the gyrofrequency, and where \<^verbatim>\<open>Vperp[i]\<close> is finite it
  is \<open>|Vperp[i]|\<close> over the gyrofrequency. No call changes an array that existed before
  it.
\<close>

lemma gyroradius_arrays_result:
  "take (length h) (snd (gyroradius E h B p Vperp T_i)) = h \<and>
   (length ts = length (h ! a) \<longrightarrow>
    gyroradius E h B p (ArrayRef a) (Array ts) = ((ws, Inr r), h') \<longrightarrow>
      take (length h) h' = h \<and>
      (a < length h \<longrightarrow> h' ! a = h ! a) \<and>
      (\<forall>i < length ts. isfinite (h ! a ! i) \<noteq> isfinite (ts ! i)) \<and>
      (\<exists>wsg w p' m rs.
         gyrofrequency E B p False None False = (wsg, Inr w) \<and>
         Particle E p = Inr p' \<and> particle_mass E p' = Inr m \<and>
         r = Array rs \<and> length rs = length ts \<and>
         (\<forall>i < length ts.
            (isfinite (ts ! i) \<longrightarrow>
               rs ! i = f_div (f_abs (f_sqrt (f_div (f_mul (Finite (2 * k_B E)) (ts ! i)) m))) w) \<and>
            (isfinite (h ! a ! i) \<longrightarrow> rs ! i = f_div (f_abs (h ! a ! i)) w)) \<and>
         (\<forall>t ws1 v1. thermal_speed E (Scalar t) p ''most_probable'' NaN = (ws1, Inr v1) \<longrightarrow>
            v1 = Scalar (f_sqrt (f_div (f_mul (Finite (2 * k_B E)) t) m)))))"
proof (intro conjI impI)
  show "take (length h) (snd (gyroradius E h B p Vperp T_i)) = h"
    by (rule gyroradius_frame)
next
  assume len: "length ts = length (h ! a)"
    and run: "gyroradius E h B p (ArrayRef a) (Array ts) = ((ws, Inr r), h')"
  from gyroradius_frame [of h E B p "ArrayRef a" "Array ts"] run
  show frame: "take (length h) h' = h"
    by simp
  {
    assume "a < length h"
    then have "h' ! a = take (length h) h' ! a"
      by simp
    then show "h' ! a = h ! a"
      using frame by simp
  }
  from run obtain ws' r' where body: "gyroradius_body E h B p (ArrayRef a) (Array ts) = ((ws', Inr r'), h')"
    and ret: "validate_array (vq_default E) r' = Inr r"
    by (rule gyroradius_success)
  from ret have r: "r = r'"
    by (auto dest: validate_array_Inr)
  from body have "fst (gyroradius_body E h B p (ArrayRef a) (Array ts)) = (ws', Inr r')"
    by simp
  then obtain x where x: "broadcast2 (\<lambda>x y. x \<noteq> y) (elementwise isfinite (deref h (ArrayRef a)))
      (elementwise isfinite (Array ts)) = Inr x" "\<not> np_any (elementwise Not x)"
    by (rule gyroradius_body_success)
  have xor: "isfinite (h ! a ! i) \<noteq> isfinite (ts ! i)" if "i < length ts" for i
  proof -
    have "(h ! a ! i, ts ! i) \<in> set (positions (deref h (ArrayRef a)) (Array ts))"
      using that len by (auto simp: in_set_zip)
    with x show ?thesis
      using xor_check by blast
  qed
  then show "\<forall>i < length ts. isfinite (h ! a ! i) \<noteq> isfinite (ts ! i)"
    by blast
  obtain Vp h2 where c2: "gyroradius_check2 E h p (ArrayRef a) (Array ts) = (Vp, h2)"
    by (cases "gyroradius_check2 E h p (ArrayRef a) (Array ts)")
  with body x have fin: "bind_r Vp (gyroradius_finish E B p) = (ws', Inr r')" and h2: "h2 = h'"
    unfolding gyroradius_body_def by simp_all
  from fin obtain ws1 V ws2 where Vp: "Vp = (ws1, Inr V)"
    and f: "gyroradius_finish E B p V = (ws2, Inr r')"
    by (rule bind_r_success)
  let ?g = "\<lambda>m t. f_sqrt (f_div (f_mul (Finite (2 * k_B E)) t) m)"
  from c2 Vp h2 have "gyroradius_check2 E h p (ArrayRef a) (Array ts) = ((ws1, Inr V), h')"
    by simp
  with len obtain p' m where p': "Particle E p = Inr p'" and m: "particle_mass E p' = Inr m"
    and V: "V = Array (map2 (\<lambda>x t. if isfinite t then ?g m t else x) (h ! a) ts)"
    by (rule gyroradius_check2_arrays)
  from f obtain w where w: "gyrofrequency E B p False None False = (ws2, Inr w)"
    and r': "r' = elementwise (\<lambda>v. f_div (f_abs v) w) V"
    by (rule gyroradius_finish_success)
  let ?rs = "map (\<lambda>v. f_div (f_abs v) w) (map2 (\<lambda>x t. if isfinite t then ?g m t else x) (h ! a) ts)"
  have rs: "r = Array ?rs" "length ?rs = length ts"
    using r r' V len by simp_all
  have elt: "(isfinite (ts ! i) \<longrightarrow> ?rs ! i = f_div (f_abs (?g m (ts ! i))) w) \<and>
      (isfinite (h ! a ! i) \<longrightarrow> ?rs ! i = f_div (f_abs (h ! a ! i)) w)" if "i < length ts" for i
    using that len xor [OF that] by simp
  have link: "v1 = Scalar (?g m t)"
    if "thermal_speed E (Scalar t) p ''most_probable'' NaN = (ws1, Inr v1)" for t ws1 v1
    using that p' m by (auto elim!: thermal_speed_success)
  show "\<exists>wsg w p' m rs.
         gyrofrequency E B p False None False = (wsg, Inr w) \<and>
         Particle E p = Inr p' \<and> particle_mass E p' = Inr m \<and>
         r = Array rs \<and> length rs = length ts \<and>
         (\<forall>i < length ts.
            (isfinite (ts ! i) \<longrightarrow>
               rs ! i = f_div (f_abs (f_sqrt (f_div (f_mul (Finite (2 * k_B E)) (ts ! i)) m))) w) \<and>
            (isfinite (h ! a ! i) \<longrightarrow> rs ! i = f_div (f_abs (h ! a ! i)) w)) \<and>
         (\<forall>t ws1 v1. thermal_speed E (Scalar t) p ''most_probable'' NaN = (ws1, Inr v1) \<longrightarrow>
            v1 = Scalar (f_sqrt (f_div (f_mul (Finite (2 * k_B E)) t) m)))"
    using w p' m rs elt link by blast
qed

text \<open>
  The selection \<^verbatim>\<open>T_i[isfinite_Ti]\<close> is empty when no element of \<^verbatim>\<open>T_i\<close> is
  finite. \<^verbatim>\<open>thermal_speed\<close> never returns on an empty array: its body computes an
  empty array of speeds, and the guard has no maximum magnitude to test. So no call of
  \<^verbatim>\<open>gyroradius\<close> with two arrays returns unless some \<^verbatim>\<open>T_i[i]\<close> is finite.
\<close>

lemma mask_select_none: "\<forall>t \<in> set ts. \<not> P t \<Longrightarrow> mask_select ts (map P ts) = []"
  by (induction ts) simp_all

lemma check_relativistic_nonempty:
  assumes "check_relativistic E m = (ws, Inr v)"
  shows "max_magnitude v \<noteq> None"
proof
  assume none: "max_magnitude v = None"
  from assms obtain ws' where "m = (ws', Inr v)"
    by (rule check_relativistic_success)
  with none have "check_relativistic E m =
      (ws', Inl (ValueError ''zero-size array to reduction operation maximum which has no identity''))"
    by (simp add: check_relativistic_def bind_r_Inr raise_def)
  with assms show False
    by simp
qed

lemma thermal_speed_formula_empty:
  "thermal_speed_formula E (Array []) method m = (ws, Inr V) \<Longrightarrow> V = Array []"
  by (auto simp: thermal_speed_formula_def ok_def raise_def split: if_splits)

lemma thermal_speed_validated_empty:
  assumes "thermal_speed_validated E (Array []) p method mass = (ws, Inr v)"
  shows "v = Array []"
proof -
  from assms obtain T' mass' p' V ws1 where T': "validate_array (nonneg (vq_default E)) (Array []) = Inr T'"
    and body: "thermal_speed_body E T' p' method mass' = (ws1, Inr V)"
    and V: "validate_array (vq_default E) V = Inr v"
    unfolding thermal_speed_validated_def
    by (elim bind_r_success) (auto dest!: lift_success)
  from T' have "T' = Array []"
    by (auto dest: validate_array_Inr)
  with body obtain m ws2 where "thermal_speed_formula E (Array []) method m = (ws2, Inr V)"
    unfolding thermal_speed_body_def by (elim bind_r_success) blast
  then have "V = Array []"
    by (rule thermal_speed_formula_empty)
  with V show ?thesis
    by (auto dest: validate_array_Inr)
qed

lemma thermal_speed_empty_raises:
  "thermal_speed E (Array []) p method mass \<noteq> (ws, Inr v)"
proof
  assume r: "thermal_speed E (Array []) p method mass = (ws, Inr v)"
  then obtain ws' where "thermal_speed_validated E (Array []) p method mass = (ws', Inr v)"
    unfolding thermal_speed_def by (rule check_relativistic_success)
  then have "v = Array []"
    by (rule thermal_speed_validated_empty)
  moreover from r have "max_magnitude v \<noteq> None"
    unfolding thermal_speed_def by (rule check_relativistic_nonempty)
  ultimately show False
    by (simp add: max_magnitude_def)
qed

lemma gyroradius_check2_all_given:
  assumes "\<forall>t \<in> set ts. \<not> isfinite t"
  shows "fst (gyroradius_check2 E h p (ArrayRef a) (Array ts)) \<noteq> (ws, Inr V)"
proof -
  have sel: "mask_select ts (map isfinite ts) = []"
    using assms by (rule mask_select_none)
  obtain ws1 r1 where th: "thermal_speed E (Array []) p ''most_probable'' NaN = (ws1, r1)"
    by (cases "thermal_speed E (Array []) p ''most_probable'' NaN")
  then obtain ex where "r1 = Inl ex"
    using thermal_speed_empty_raises [of E p "''most_probable''" NaN ws1] by (cases r1) auto
  with th sel show ?thesis
    by (simp add: gyroradius_check2_def np_copy_def)
qed

lemma gyroradius_arrays_all_given:
  assumes "\<forall>t \<in> set ts. \<not> isfinite t"
  shows "gyroradius E h B p (ArrayRef a) (Array ts) \<noteq> ((ws, Inr r), h')"
proof
  assume "gyroradius E h B p (ArrayRef a) (Array ts) = ((ws, Inr r), h')"
  then obtain ws' r' where body: "gyroradius_body E h B p (ArrayRef a) (Array ts) = ((ws', Inr r'), h')"
    by (rule gyroradius_success)
  then have "fst (gyroradius_body E h B p (ArrayRef a) (Array ts)) = (ws', Inr r')"
    by simp
  then obtain x where x: "broadcast2 (\<lambda>x y. x \<noteq> y) (elementwise isfinite (deref h (ArrayRef a)))
      (elementwise isfinite (Array ts)) = Inr x" "\<not> np_any (elementwise Not x)"
    by (rule gyroradius_body_success)
  obtain Vp h2 where c2: "gyroradius_check2 E h p (ArrayRef a) (Array ts) = (Vp, h2)"
    by (cases "gyroradius_check2 E h p (ArrayRef a) (Array ts)")
  with body x have "bind_r Vp (gyroradius_finish E B p) = (ws', Inr r')"
    unfolding gyroradius_body_def by simp
  then obtain ws1 V where "Vp = (ws1, Inr V)"
    by (rule bind_r_success)
  with c2 have "fst (gyroradius_check2 E h p (ArrayRef a) (Array ts)) = (ws1, Inr V)"
    by simp
  with gyroradius_check2_all_given [OF assms] show False
    by blast
qed

lemma thermal_speed_env0_empty:
  "thermal_speed env0 (Array []) ''e-'' ''most_probable'' NaN =
     ([], Inl (ValueError ''zero-size array to reduction operation maximum which has no identity''))"
proof -
  have "Particle env0 ''e-'' = Inr ''e-''" "particle_mass env0 ''e-'' = Inr (Finite (910938356 / 10 ^ 39))"
    by (simp_all add: env0_def)
  then have "thermal_speed_validated env0 (Array []) ''e-'' ''most_probable'' NaN = ([], Inr (Array []))"
    by (simp add: thermal_speed_validated_def thermal_speed_body_def thermal_speed_formula_def
        validate_array_def nonneg_def validate_mass_nonfinite ok_def lift_def)
  then show ?thesis
    by (simp add: thermal_speed_def check_relativistic_def max_magnitude_def bind_r_Inr raise_def)
qed

text \<open>
  Claim C8. For two arrays of one length with exactly one of \<^verbatim>\<open>Vperp[i]\<close> and
  \<^verbatim>\<open>T_i[i]\<close> finite at every index, the result should hold \<open>|Vperp[i]|\<close> over the
  gyrofrequency wherever \<^verbatim>\<open>Vperp[i]\<close> is finite. The branch for two arrays (source
  lines 963 to 967) misses the case that no \<^verbatim>\<open>T_i[i]\<close> is finite: for
  \<^verbatim>\<open>Vperp = [1e6, 2e6]\<close> and \<^verbatim>\<open>T_i = [nan, nan]\<close> it calls
  \<^verbatim>\<open>thermal_speed\<close> on the empty selection and raises the ValueError of the
  maximum of an empty array, after allocating the copy and without writing to the
  caller's array. The sibling branches return the claimed radii for the same data: the
  array \<^verbatim>\<open>Vperp\<close> with the scalar \<^verbatim>\<open>T_i = nan\<close>, and the scalar
  \<^verbatim>\<open>Vperp\<close> with the array \<^verbatim>\<open>T_i = [nan, nan]\<close>.
\<close>

theorem gyroradius_both_sequences_all_given:
  "gyroradius env0 [[Finite (10 ^ 6), Finite (2 * 10 ^ 6)]] (Finite (1 / 5)) ''e-'' (ArrayRef 0)
      (Array [NaN, NaN]) =
     (([], Inl (ValueError ''zero-size array to reduction operation maximum which has no identity'')),
      [[Finite (10 ^ 6), Finite (2 * 10 ^ 6)], [Finite (10 ^ 6), Finite (2 * 10 ^ 6)]]) \<and>
   gyroradius env0 [[Finite (10 ^ 6), Finite (2 * 10 ^ 6)]] (Finite (1 / 5)) ''e-'' (ArrayRef 0)
      (Scalar NaN) =
     (([], Inr (Array
        [Finite (10 ^ 6 / (16021766208 / 10 ^ 29 * (1 / 5) / (910938356 / 10 ^ 39))),
         Finite (2 * 10 ^ 6 / (16021766208 / 10 ^ 29 * (1 / 5) / (910938356 / 10 ^ 39)))])),
      [[Finite (10 ^ 6), Finite (2 * 10 ^ 6)]]) \<and>
   gyroradius env0 [] (Finite (1 / 5)) ''e-'' (ScalarV (Finite (10 ^ 6))) (Array [NaN, NaN]) =
     (([], Inr (Array
        [Finite (10 ^ 6 / (16021766208 / 10 ^ 29 * (1 / 5) / (910938356 / 10 ^ 39))),
         Finite (10 ^ 6 / (16021766208 / 10 ^ 29 * (1 / 5) / (910938356 / 10 ^ 39)))])),
      [])"
proof -
  have a: "gyroradius env0 [[Finite (10 ^ 6), Finite (2 * 10 ^ 6)]] (Finite (1 / 5)) ''e-'' (ArrayRef 0)
      (Array [NaN, NaN]) =
     (([], Inl (ValueError ''zero-size array to reduction operation maximum which has no identity'')),
      [[Finite (10 ^ 6), Finite (2 * 10 ^ 6)], [Finite (10 ^ 6), Finite (2 * 10 ^ 6)]])"
    using thermal_speed_env0_empty
    by (simp add: gyroradius_def gyroradius_body_def gyroradius_check2_def
        np_copy_def np_any_def lift_def)
  have b: "gyroradius env0 [[Finite (10 ^ 6), Finite (2 * 10 ^ 6)]] (Finite (1 / 5)) ''e-'' (ArrayRef 0)
      (Scalar NaN) =
     (([], Inr (Array
        [Finite (10 ^ 6 / (16021766208 / 10 ^ 29 * (1 / 5) / (910938356 / 10 ^ 39))),
         Finite (2 * 10 ^ 6 / (16021766208 / 10 ^ 29 * (1 / 5) / (910938356 / 10 ^ 39)))])),
      [[Finite (10 ^ 6), Finite (2 * 10 ^ 6)]])"
    using gyrofrequency_env0_electron
    by (simp add: gyroradius_def gyroradius_body_def gyroradius_check2_def gyroradius_finish_def
        np_any_def ok_def lift_def)
  have c: "gyroradius env0 [] (Finite (1 / 5)) ''e-'' (ScalarV (Finite (10 ^ 6))) (Array [NaN, NaN]) =
     (([], Inr (Array
        [Finite (10 ^ 6 / (16021766208 / 10 ^ 29 * (1 / 5) / (910938356 / 10 ^ 39))),
         Finite (10 ^ 6 / (16021766208 / 10 ^ 29 * (1 / 5) / (910938356 / 10 ^ 39)))])),
      [])"
    using gyrofrequency_env0_electron
    by (simp add: gyroradius_def gyroradius_body_def gyroradius_check2_def gyroradius_finish_def
        np_any_def ok_def lift_def)
  from a b c show ?thesis
    by blast
qed

end
